theory Spec2Isabelle
  imports Main
begin

section \<open>The deployment scripts\<close>

text \<open>
  The two shell scripts of the repository, \<^verbatim>\<open>scripts/deploy.sh\<close> (local Docker build,
  in \<^verbatim>\<open>src/unnamed/part_000\<close>) and \<^verbatim>\<open>scripts/deploy-no-docker.sh\<close> (remote CodeBuild
  build, in \<^verbatim>\<open>src/unnamed/part_001\<close>), are modelled as lists of steps over an explicit
  shell state. Both run under \<^verbatim>\<open>set -e\<close>: a command that fails outside a condition or
  an \<^verbatim>\<open>||\<close> list ends the script with that command's exit status.

  Everything outside the script (the AWS CLI, cdk, docker, npm, the file system) is an
  oracle: for each call site, named by its line in the source file, the world gives the
  exit status and the captured output of the command run there.
\<close>

subsection \<open>Commands, events and the shell state\<close>

datatype cmd =
    Whoami
  | StsGetCallerIdentity
  | DockerInfo
  | CommandV string
  | NpmInstallGlobal string
  | Cd string
  | NpmInstall
  | NpmRunBuild
  | CdkBootstrap
  | DescribeStacks string string
  | DescribeStackOutput string string string
  | CdkDeploy "(string \<times> string) list"
  | DockerBuild string
  | EcrLogin string string
  | DockerTag string string
  | DockerPush string
  | Mktemp
  | CpR string string
  | WriteFile string
  | Zip string
  | ListProjects string string
  | CutField string nat
  | IamGetRole string
  | IamCreateRole string
  | IamAttachRolePolicy string string
  | Sleep nat
  | DateSeconds
  | S3Mb string string
  | S3Cp string string
  | CreateProject string string string string
  | BatchGetProjects string string
  | StartBuild string string string
  | BatchGetBuilds string string
  | RmRf string

datatype event = Echo string | Run cmd

record sh =
  trace :: "event list"
  exited :: "nat option"
  vars :: "string \<Rightarrow> string"

text \<open>
  The world of a run: the first argument, the environment variable \<^verbatim>\<open>AWS_REGION\<close>,
  the exit status and output of the command at each line, and the exit status and
  output of each successive query for the status of the build.
\<close>

record world =
  arg1 :: "string option"
  env_AWS_REGION :: "string option"
  result :: "nat \<Rightarrow> nat \<times> string"
  build_query :: "nat \<Rightarrow> nat \<times> string"

type_synonym step = "world \<Rightarrow> sh \<Rightarrow> sh"

text \<open>
  The shell expands an unset variable to the empty string; \<^verbatim>\<open>$1\<close> and the
  environment variable \<^verbatim>\<open>AWS_REGION\<close> are the only variables read before the script
  sets them.
\<close>

definition init :: "world \<Rightarrow> sh" where
  "init w = \<lparr>trace = [], exited = None,
     vars = (\<lambda>x. if x = ''1'' then (case arg1 w of None \<Rightarrow> [] | Some a \<Rightarrow> a)
                else if x = ''AWS_REGION'' then (case env_AWS_REGION w of None \<Rightarrow> [] | Some r \<Rightarrow> r)
                else [])\<rparr>"

definition v :: "string \<Rightarrow> sh \<Rightarrow> string" where
  "v x s = vars s x"

definition status :: "sh \<Rightarrow> nat" where
  "status s = (case exited s of None \<Rightarrow> 0 | Some c \<Rightarrow> c)"

subsection \<open>Strings\<close>

text \<open>Command substitution removes the trailing newlines of the captured output.\<close>

definition strip_nl :: "string \<Rightarrow> string" where
  "strip_nl s = rev (dropWhile (\<lambda>c. c = CHR 0x0A) (rev s))"

text \<open>\<^verbatim>\<open>[[ "$X" == *"p"* ]]\<close> in the shell, \<^verbatim>\<open>startsWith\<close> in TypeScript.\<close>

fun starts_with :: "string \<Rightarrow> string \<Rightarrow> bool" where
  "starts_with [] s = True"
| "starts_with (p # ps) [] = False"
| "starts_with (p # ps) (c # cs) = (p = c \<and> starts_with ps cs)"

fun contains :: "string \<Rightarrow> string \<Rightarrow> bool" where
  "contains p [] = (p = [])"
| "contains p (c # cs) = (starts_with p (c # cs) \<or> contains p cs)"

subsection \<open>Steps\<close>

definition emit :: "event \<Rightarrow> sh \<Rightarrow> sh" where
  "emit e s = s\<lparr>trace := trace s @ [e]\<rparr>"

text \<open>A list of statements; nothing runs after \<^verbatim>\<open>exit\<close> or a failed command.\<close>

fun exec :: "step list \<Rightarrow> step" where
  "exec [] w s = s"
| "exec (f # fs) w s = (if exited s = None then exec fs w (f w s) else s)"

definition echo :: "(sh \<Rightarrow> string) \<Rightarrow> step" where
  "echo msg w s = emit (Echo (msg s)) s"

definition exit_sh :: "nat \<Rightarrow> step" where
  "exit_sh n w s = s\<lparr>exited := Some n\<rparr>"

definition assign :: "string \<Rightarrow> (sh \<Rightarrow> string) \<Rightarrow> step" where
  "assign x e w s = s\<lparr>vars := (vars s)(x := e s)\<rparr>"

text \<open>A plain command at line \<open>l\<close>: under \<^verbatim>\<open>set -e\<close> its failure ends the script.\<close>

definition run :: "nat \<Rightarrow> (sh \<Rightarrow> cmd) \<Rightarrow> step" where
  "run l c w s =
     (let s' = emit (Run (c s)) s
      in if fst (result w l) = 0 then s' else s'\<lparr>exited := Some (fst (result w l))\<rparr>)"

text \<open>\<^verbatim>\<open>cmd || true\<close>: the exit status is ignored. \<^verbatim>\<open>sleep\<close> is taken to succeed.\<close>

definition run_or_true :: "(sh \<Rightarrow> cmd) \<Rightarrow> step" where
  "run_or_true c w s = emit (Run (c s)) s"

text \<open>\<^verbatim>\<open>cmd || echo "msg"\<close> as a statement of its own.\<close>

definition run_or_echo :: "nat \<Rightarrow> (sh \<Rightarrow> cmd) \<Rightarrow> string \<Rightarrow> step" where
  "run_or_echo l c msg w s =
     (let s' = emit (Run (c s)) s
      in if fst (result w l) = 0 then s' else emit (Echo msg) s')"

text \<open>
  \<^verbatim>\<open>X="...$(cmd)..."\<close>: the assignment has the exit status of the command
  substitution, so under \<^verbatim>\<open>set -e\<close> a failing \<open>cmd\<close> ends the script. \<open>g\<close> builds
  the assigned value from the stripped output.
\<close>

definition assign_cmd :: "string \<Rightarrow> nat \<Rightarrow> (sh \<Rightarrow> cmd) \<Rightarrow> (sh \<Rightarrow> string \<Rightarrow> string) \<Rightarrow> step" where
  "assign_cmd x l c g w s =
     (let s' = emit (Run (c s)) s
      in if fst (result w l) = 0
         then s'\<lparr>vars := (vars s')(x := g s (strip_nl (snd (result w l))))\<rparr>
         else s'\<lparr>exited := Some (fst (result w l))\<rparr>)"

text \<open>
  \<^verbatim>\<open>X=$(cmd || echo "d")\<close>: the substitution never fails; when \<open>cmd\<close> fails, the line
  \<open>d\<close> follows whatever \<open>cmd\<close> has printed.
\<close>

definition subst_or :: "string \<Rightarrow> nat \<times> string \<Rightarrow> string" where
  "subst_or d r = (if fst r = 0 then strip_nl (snd r) else strip_nl (snd r @ d @ [CHR 0x0A]))"

definition assign_cmd_or :: "string \<Rightarrow> nat \<Rightarrow> (sh \<Rightarrow> cmd) \<Rightarrow> string \<Rightarrow> step" where
  "assign_cmd_or x l c d w s =
     (let s' = emit (Run (c s)) s
      in s'\<lparr>vars := (vars s')(x := subst_or d (result w l))\<rparr>)"

text \<open>\<^verbatim>\<open>if ! cmd; then ...; fi\<close>, \<^verbatim>\<open>if test; then ...; fi\<close> and \<^verbatim>\<open>if test; then ...; else ...; fi\<close>.\<close>

definition if_not_cmd :: "nat \<Rightarrow> (sh \<Rightarrow> cmd) \<Rightarrow> step list \<Rightarrow> step" where
  "if_not_cmd l c body w s =
     (let s' = emit (Run (c s)) s
      in if fst (result w l) \<noteq> 0 then exec body w s' else s')"

definition if_then :: "(sh \<Rightarrow> bool) \<Rightarrow> step list \<Rightarrow> step" where
  "if_then b body w s = (if b s then exec body w s else s)"

definition if_then_else :: "(sh \<Rightarrow> bool) \<Rightarrow> step list \<Rightarrow> step list \<Rightarrow> step" where
  "if_then_else b body1 body2 w s = (if b s then exec body1 w s else exec body2 w s)"

subsection \<open>The parts the two scripts share\<close>

text \<open>
  \<^verbatim>\<open>ENVIRONMENT="${1:-preview-$(whoami)}"\<close>, \<^verbatim>\<open>REGION="${AWS_REGION:-us-east-1}"\<close>,
  \<^verbatim>\<open>STACK_NAME="FastApiRunner-${ENVIRONMENT}"\<close> (part_000 lines 90-92, part_001 lines 5-7).
  \<^verbatim>\<open>:-\<close> takes the default when the parameter is unset or empty, and \<^verbatim>\<open>whoami\<close>
  runs only then.
\<close>

definition resolve :: "nat \<Rightarrow> step list" where
  "resolve l =
    [if_then_else (\<lambda>s. v ''1'' s \<noteq> [])
       [assign ''ENVIRONMENT'' (v ''1'')]
       [assign_cmd ''ENVIRONMENT'' l (\<lambda>s. Whoami) (\<lambda>s out. ''preview-'' @ out)],
     if_then_else (\<lambda>s. v ''AWS_REGION'' s \<noteq> [])
       [assign ''REGION'' (v ''AWS_REGION'')]
       [assign ''REGION'' (\<lambda>s. ''us-east-1'')],
     assign ''STACK_NAME'' (\<lambda>s. ''FastApiRunner-'' @ v ''ENVIRONMENT'' s)]"

text \<open>The check of the AWS CLI (part_000 lines 97-100, part_001 lines 13-16).\<close>

definition check_aws :: "nat \<Rightarrow> step list" where
  "check_aws l =
    [if_not_cmd l (\<lambda>s. StsGetCallerIdentity)
       [echo (\<lambda>s. ''AWS CLI not configured. Run 'aws configure --profile my-profile' first.''),
        exit_sh 1]]"

text \<open>Installing cdk and building the infrastructure code (part_000 lines 109-117, part_001 lines 22-30).\<close>

definition install_cdk :: "nat \<Rightarrow> step list" where
  "install_cdk l =
    [if_not_cmd l (\<lambda>s. CommandV ''cdk'')
       [echo (\<lambda>s. ''Installing AWS CDK...''),
        run (l + 2) (\<lambda>s. NpmInstallGlobal ''aws-cdk'')],
     run (l + 6) (\<lambda>s. Cd ''infra''),
     run (l + 7) (\<lambda>s. NpmInstall),
     run (l + 8) (\<lambda>s. NpmRunBuild)]"

text \<open>
  The probe for the stack and the first deployment (part_000 lines 124-133, part_001
  lines 37-46). The probe is \<^verbatim>\<open>$(aws cloudformation describe-stacks ... 2>&1 || echo "NONE")\<close>.
\<close>

definition not_found :: "string \<Rightarrow> bool" where
  "not_found r \<longleftrightarrow> contains ''does not exist'' r \<or> r = ''NONE''"

definition bootstrap_context :: "string \<Rightarrow> (string \<times> string) list" where
  "bootstrap_context e = [(''environment'', e), (''createService'', ''false'')]"

definition probe_bootstrap :: "nat \<Rightarrow> step list" where
  "probe_bootstrap l =
    [assign_cmd_or ''STACK_EXISTS'' l
       (\<lambda>s. DescribeStacks (v ''STACK_NAME'' s) (v ''REGION'' s)) ''NONE'',
     if_then (\<lambda>s. not_found (v ''STACK_EXISTS'' s))
       [echo (\<lambda>s. ''First deployment detected - Creating ECR repository...''),
        run (l + 8) (\<lambda>s. CdkDeploy (bootstrap_context (v ''ENVIRONMENT'' s)))]]"

text \<open>The registry URI and its check (part_000 lines 136-148, part_001 lines 49-61).\<close>

definition repository_uri :: "nat \<Rightarrow> step list" where
  "repository_uri l =
    [assign_cmd ''REPOSITORY_URI'' l
       (\<lambda>s. DescribeStackOutput (v ''STACK_NAME'' s) ''RepositoryUri'' (v ''REGION'' s)) (\<lambda>s out. out),
     if_then (\<lambda>s. v ''REPOSITORY_URI'' s = ''None'' \<or> v ''REPOSITORY_URI'' s = [])
       [echo (\<lambda>s. ''Error: Could not retrieve ECR repository URI''),
        exit_sh 1],
     echo (\<lambda>s. ''ECR Repository: '' @ v ''REPOSITORY_URI'' s)]"

text \<open>The full deployment (part_000 line 168, part_001 line 231).\<close>

definition full_context :: "string \<Rightarrow> (string \<times> string) list" where
  "full_context e = [(''environment'', e)]"

definition full_deploy :: "nat \<Rightarrow> string \<Rightarrow> step list" where
  "full_deploy l msg =
    [echo (\<lambda>s. msg),
     run l (\<lambda>s. CdkDeploy (full_context (v ''ENVIRONMENT'' s)))]"

text \<open>
  The service URL and the report (part_000 lines 171-194, part_001 lines 234-257). The
  query is \<^verbatim>\<open>$(aws cloudformation describe-stacks ... 2>&1 || echo "")\<close>; \<open>name\<close> is the
  script's name in the usage examples.
\<close>

definition report :: "nat \<Rightarrow> string \<Rightarrow> step list" where
  "report l name =
    [assign_cmd_or ''SERVICE_URL'' l
       (\<lambda>s. DescribeStackOutput (v ''STACK_NAME'' s) ''ServiceUrl'' (v ''REGION'' s)) [],
     echo (\<lambda>s. []),
     echo (\<lambda>s. ''Deployment complete!''),
     if_then_else (\<lambda>s. v ''SERVICE_URL'' s \<noteq> [] \<and> v ''SERVICE_URL'' s \<noteq> ''None'')
       [echo (\<lambda>s. ''Service URL: '' @ v ''SERVICE_URL'' s),
        echo (\<lambda>s. []),
        echo (\<lambda>s. ''App Runner will automatically deploy the new image in ~2-5 minutes''),
        echo (\<lambda>s. []),
        echo (\<lambda>s. ''To test the service once deployed:''),
        echo (\<lambda>s. ''  curl '' @ v ''SERVICE_URL'' s @ ''/health'')]
       [echo (\<lambda>s. ''Note: Service URL not available yet. Check AWS Console for status.'')],
     echo (\<lambda>s. []),
     echo (\<lambda>s. ''Usage examples:''),
     echo (\<lambda>s. ''  ./scripts/'' @ name @ ''                  # Deploy to preview-$(whoami)''),
     echo (\<lambda>s. ''  ./scripts/'' @ name @ '' dev              # Deploy to dev''),
     echo (\<lambda>s. ''  ./scripts/'' @ name @ '' prod             # Deploy to production'')]"

subsection \<open>scripts/deploy.sh\<close>

definition setup_A :: "step list" where
  "setup_A =
    resolve 90 @
    [echo (\<lambda>s. ''Deploying FastAPI sample to App Runner - Environment: '' @ v ''ENVIRONMENT'' s)] @
    check_aws 97 @
    [if_not_cmd 103 (\<lambda>s. DockerInfo)
       [echo (\<lambda>s. ''Docker is not running. Please start Docker first.''),
        exit_sh 1]] @
    install_cdk 109 @
    [echo (\<lambda>s. ''Bootstrapping CDK...''),
     run 121 (\<lambda>s. CdkBootstrap)]"

text \<open>
  Building and pushing the image on the local machine (part_000 lines 151-166). The
  pipeline of lines 156-157 is one command, with the exit status of \<^verbatim>\<open>docker login\<close>.
\<close>

definition publish_A :: "step list" where
  "publish_A =
    [run 151 (\<lambda>s. Cd ''../app''),
     echo (\<lambda>s. ''Building Docker image...''),
     run 153 (\<lambda>s. DockerBuild ''fastapi-sample:latest''),
     echo (\<lambda>s. ''Logging in to ECR...''),
     run 156 (\<lambda>s. EcrLogin (v ''REGION'' s) (v ''REPOSITORY_URI'' s)),
     echo (\<lambda>s. ''Tagging image...''),
     run 160 (\<lambda>s. DockerTag ''fastapi-sample:latest'' (v ''REPOSITORY_URI'' s @ '':latest'')),
     echo (\<lambda>s. ''Pushing image to ECR...''),
     run 163 (\<lambda>s. DockerPush (v ''REPOSITORY_URI'' s @ '':latest'')),
     run 166 (\<lambda>s. Cd ''../infra'')]"

definition deploy_sh_steps :: "step list" where
  "deploy_sh_steps =
    setup_A @ probe_bootstrap 124 @ repository_uri 136 @ publish_A @
    full_deploy 168 ''Deploying CDK stack...'' @ report 171 ''deploy.sh''"

definition deploy_sh :: "world \<Rightarrow> sh" where
  "deploy_sh w = exec deploy_sh_steps w (init w)"

subsection \<open>scripts/deploy-no-docker.sh\<close>

definition setup_B :: "step list" where
  "setup_B =
    resolve 5 @
    [assign ''BUILD_STACK_NAME'' (\<lambda>s. ''FastApiBuild-'' @ v ''ENVIRONMENT'' s),
     echo (\<lambda>s. ''Deploying FastAPI sample to App Runner (without local Docker) - Environment: ''
                 @ v ''ENVIRONMENT'' s)] @
    check_aws 13 @
    [assign ''AWS_PROFILE'' (\<lambda>s. ''my-profile''),
     assign ''AWS_REGION'' (v ''REGION'')] @
    install_cdk 22 @
    [echo (\<lambda>s. ''Checking CDK bootstrap...''),
     run_or_true (\<lambda>s. CdkBootstrap)]"

text \<open>
  Packaging the source (part_001 lines 64-100). The contents of the files written by
  \<^verbatim>\<open>cat > file <<EOF\<close> are not modelled.
\<close>

definition package_B :: "step list" where
  "package_B =
    [run 64 (\<lambda>s. Cd ''..''),
     echo (\<lambda>s. ''Preparing source code for CodeBuild...''),
     assign_cmd ''TEMP_DIR'' 66 (\<lambda>s. Mktemp) (\<lambda>s out. out),
     run 67 (\<lambda>s. CpR ''app'' (v ''TEMP_DIR'' s @ ''/'')),
     run_or_true (\<lambda>s. CpR ''infra'' (v ''TEMP_DIR'' s @ ''/'')),
     run 69 (\<lambda>s. Cd (v ''TEMP_DIR'' s)),
     run 72 (\<lambda>s. WriteFile ''buildspec.yml''),
     run 100 (\<lambda>s. Zip ''source.zip'')]"

text \<open>
  The CodeBuild project, its role and its bucket (part_001 lines 103-187). The two
  pipelines ending in \<^verbatim>\<open>cut\<close> (lines 113 and 183) are one command each, with the exit
  status of \<^verbatim>\<open>cut\<close>.
\<close>

definition create_role_B :: "step list" where
  "create_role_B =
    [echo (\<lambda>s. ''Creating IAM role for CodeBuild...''),
     run_or_true (\<lambda>s. IamCreateRole (v ''ROLE_NAME'' s)),
     run 137 (\<lambda>s. IamAttachRolePolicy (v ''ROLE_NAME'' s)
                     ''arn:aws:iam::aws:policy/CloudWatchLogsFullAccess''),
     run 138 (\<lambda>s. IamAttachRolePolicy (v ''ROLE_NAME'' s)
                     ''arn:aws:iam::aws:policy/AmazonEC2ContainerRegistryPowerUser''),
     run_or_true (\<lambda>s. Sleep 5),
     assign_cmd ''ROLE_ARN'' 140 (\<lambda>s. IamGetRole (v ''ROLE_NAME'' s)) (\<lambda>s out. out)]"

definition create_project_B :: "step list" where
  "create_project_B =
    [echo (\<lambda>s. ''Creating CodeBuild project...''),
     assign_cmd ''REPO_NAME'' 113 (\<lambda>s. CutField (v ''REPOSITORY_URI'' s) 2) (\<lambda>s out. out),
     run 116 (\<lambda>s. WriteFile ''/tmp/codebuild-role-policy.json''),
     assign ''ROLE_NAME'' (\<lambda>s. ''codebuild-'' @ v ''PROJECT_NAME'' s @ ''-role''),
     assign_cmd_or ''ROLE_ARN'' 132 (\<lambda>s. IamGetRole (v ''ROLE_NAME'' s)) [],
     if_then (\<lambda>s. v ''ROLE_ARN'' s = [] \<or> v ''ROLE_ARN'' s = ''None'') create_role_B,
     run 144 (\<lambda>s. WriteFile ''/tmp/codebuild-project.json''),
     assign_cmd ''BUCKET_NAME'' 166 (\<lambda>s. DateSeconds)
       (\<lambda>s out. ''codebuild-source-'' @ v ''ENVIRONMENT'' s @ ''-'' @ out),
     run_or_true (\<lambda>s. S3Mb (''s3://'' @ v ''BUCKET_NAME'' s) (v ''REGION'' s)),
     run 168 (\<lambda>s. S3Cp ''source.zip'' (''s3://'' @ v ''BUCKET_NAME'' s @ ''/source.zip'')),
     run_or_echo 171
       (\<lambda>s. CreateProject (v ''PROJECT_NAME'' s) (v ''BUCKET_NAME'' s @ ''/source.zip'')
               (v ''ROLE_ARN'' s) (v ''REGION'' s))
       ''Project may already exist'']"

definition project_B :: "step list" where
  "project_B =
    [echo (\<lambda>s. ''Starting CodeBuild to build and push Docker image...''),
     assign ''PROJECT_NAME'' (\<lambda>s. ''fastapi-build-'' @ v ''ENVIRONMENT'' s),
     assign_cmd_or ''PROJECT_EXISTS'' 107
       (\<lambda>s. ListProjects (v ''PROJECT_NAME'' s) (v ''REGION'' s)) [],
     if_then (\<lambda>s. v ''PROJECT_EXISTS'' s = []) create_project_B,
     assign_cmd ''BUCKET_NAME'' 183
       (\<lambda>s. BatchGetProjects (v ''PROJECT_NAME'' s) (v ''REGION'' s)) (\<lambda>s out. out),
     if_then (\<lambda>s. v ''BUCKET_NAME'' s \<noteq> [] \<and> v ''BUCKET_NAME'' s \<noteq> ''None'')
       [run 185 (\<lambda>s. S3Cp ''source.zip'' (''s3://'' @ v ''BUCKET_NAME'' s @ ''/source.zip'')),
        run 186 (\<lambda>s. S3Cp ''buildspec.yml'' (''s3://'' @ v ''BUCKET_NAME'' s @ ''/buildspec.yml''))]]"

definition start_build_B :: "step list" where
  "start_build_B =
    [echo (\<lambda>s. ''Starting CodeBuild...''),
     assign_cmd ''BUILD_ID'' 191
       (\<lambda>s. StartBuild (v ''PROJECT_NAME'' s) (v ''REPOSITORY_URI'' s) (v ''REGION'' s))
       (\<lambda>s out. out),
     echo (\<lambda>s. ''Build started: '' @ v ''BUILD_ID'' s),
     echo (\<lambda>s. ''Waiting for build to complete (this may take 5-10 minutes)...'')]"

text \<open>
  The loop that waits for the build (part_001 lines 203-222). \<open>query_build k\<close> is the
  \<open>k\<close>-th execution of \<^verbatim>\<open>BUILD_STATUS=$(aws codebuild batch-get-builds ...)\<close>; the
  loop has no exit other than \<^verbatim>\<open>break\<close>, \<^verbatim>\<open>exit 1\<close> and a failing query, so it is a
  partial function: \<open>None\<close> is the run that never leaves the loop.
\<close>

definition query_build :: "nat \<Rightarrow> step" where
  "query_build k w s =
     (let s' = emit (Run (BatchGetBuilds (v ''BUILD_ID'' s) (v ''REGION'' s))) s
      in if fst (build_query w k) = 0
         then s'\<lparr>vars := (vars s')(''BUILD_STATUS'' := strip_nl (snd (build_query w k)))\<rparr>
         else s'\<lparr>exited := Some (fst (build_query w k))\<rparr>)"

definition failed_status :: "string \<Rightarrow> bool" where
  "failed_status b \<longleftrightarrow> b = ''FAILED'' \<or> b = ''FAULT'' \<or> b = ''TIMED_OUT'' \<or> b = ''STOPPED''"

definition build_succeeded :: "step list" where
  "build_succeeded = [echo (\<lambda>s. ''Build completed successfully!'')]"

definition build_failed :: "step list" where
  "build_failed =
    [echo (\<lambda>s. ''Build failed with status: '' @ v ''BUILD_STATUS'' s),
     echo (\<lambda>s. ''Check logs at: https://'' @ v ''REGION'' s
                 @ ''.console.aws.amazon.com/codesuite/codebuild/projects/''
                 @ v ''PROJECT_NAME'' s @ ''/build/'' @ v ''BUILD_ID'' s),
     exit_sh 1]"

definition build_waiting :: "step list" where
  "build_waiting =
    [echo (\<lambda>s. ''Build status: '' @ v ''BUILD_STATUS'' s @ '' (waiting...)''),
     run_or_true (\<lambda>s. Sleep 10)]"

partial_function (option) wait_for_build :: "nat \<Rightarrow> world \<Rightarrow> sh \<Rightarrow> sh option" where
  "wait_for_build k w s =
     (if exited (query_build k w s) \<noteq> None then Some (query_build k w s)
      else if v ''BUILD_STATUS'' (query_build k w s) = ''SUCCEEDED''
        then Some (exec build_succeeded w (query_build k w s))
      else if failed_status (v ''BUILD_STATUS'' (query_build k w s))
        then Some (exec build_failed w (query_build k w s))
      else wait_for_build (Suc k) w (exec build_waiting w (query_build k w s)))"

declare wait_for_build.simps [code]

definition after_B :: "step list" where
  "after_B =
    [run 225 (\<lambda>s. Cd ''..''),
     run 226 (\<lambda>s. RmRf (v ''TEMP_DIR'' s)),
     run 229 (\<lambda>s. Cd ''infra'')] @
    full_deploy 231 ''Deploying CDK stack with App Runner service...'' @
    report 234 ''deploy-no-docker.sh''"

definition before_B :: "step list" where
  "before_B =
    setup_B @ probe_bootstrap 37 @ repository_uri 49 @ package_B @ project_B @ start_build_B"

definition deploy_no_docker :: "world \<Rightarrow> sh option" where
  "deploy_no_docker w =
     (let s = exec before_B w (init w)
      in if exited s \<noteq> None then Some s
         else map_option (exec after_B w) (wait_for_build 0 w s))"

section \<open>The CDK application\<close>

subsection \<open>JavaScript values\<close>

text \<open>
  A value that may be \<^verbatim>\<open>undefined\<close> is an option. \<^verbatim>\<open>a || b\<close> and \<^verbatim>\<open>if (a)\<close> take
  \<^verbatim>\<open>undefined\<close> and the empty string as false.
\<close>

definition truthy :: "string option \<Rightarrow> bool" where
  "truthy a \<longleftrightarrow> (case a of None \<Rightarrow> False | Some s \<Rightarrow> s \<noteq> [])"

definition or_else :: "string option \<Rightarrow> string \<Rightarrow> string" where
  "or_else a b = (case a of None \<Rightarrow> b | Some s \<Rightarrow> if s \<noteq> [] then s else b)"

text \<open>\<^verbatim>\<open>toLowerCase\<close>, \<^verbatim>\<open>trim\<close> and \<^verbatim>\<open>toString\<close> on a port number, for ASCII text.\<close>

definition lower_char :: "char \<Rightarrow> char" where
  "lower_char c =
     (if (65::nat) \<le> of_char c \<and> of_char c \<le> (90::nat) then char_of (of_char c + (32::nat)) else c)"

definition toLowerCase :: "string \<Rightarrow> string" where
  "toLowerCase s = map lower_char s"

definition is_space :: "char \<Rightarrow> bool" where
  "is_space c \<longleftrightarrow> c \<in> set [CHR '' '', CHR 0x09, CHR 0x0A, CHR 0x0B, CHR 0x0C, CHR 0x0D]"

definition trim :: "string \<Rightarrow> string" where
  "trim s = rev (dropWhile is_space (rev (dropWhile is_space s)))"

definition digit_char :: "nat \<Rightarrow> char" where
  "digit_char d = ''0123456789'' ! d"

fun toString :: "nat \<Rightarrow> string" where
  "toString n = (if n < 10 then [digit_char n] else toString (n div 10) @ [digit_char (n mod 10)])"

declare toString.simps [simp del]

text \<open>
  A value known only at deployment (a CDK token), such as the URI of the repository,
  is written as a placeholder naming the construct and its attribute.
\<close>

definition attr :: "string \<Rightarrow> string \<Rightarrow> string" where
  "attr c a = ''${'' @ c @ ''.'' @ a @ ''}''"

subsection \<open>lib/stacks/apprunner-stack.ts\<close>

text \<open>
  \<open>environmentVariables\<close> is the object's entries in the order of \<^verbatim>\<open>Object.entries\<close>.
\<close>

record AppRunnerStackProps =
  env_account :: "string option"
  env_region :: string
  description :: "string option"
  environment :: string
  cpu :: "string option"
  memory :: "string option"
  port :: "nat option"
  environmentVariables :: "(string \<times> string) list option"
  secretsArn :: "string option"
  createService :: "bool option"

record image_configuration =
  ic_port :: string
  runtimeEnvironmentVariables :: "(string \<times> string) list"
  runtimeEnvironmentSecrets :: "(string \<times> string) list option"

record service =
  serviceName :: string
  accessRoleArn :: string
  autoDeploymentsEnabled :: bool
  imageRepositoryType :: string
  imageIdentifier :: string
  imageConfiguration :: image_configuration
  instance_cpu :: string
  instance_memory :: string
  instanceRoleArn :: string
  healthCheck :: "string \<times> string \<times> nat \<times> nat \<times> nat \<times> nat"

datatype construct =
    Repository string string bool bool "(string \<times> nat) list"
  | Role string string "string option" "string list"
  | SecretRead string string string
  | Service string service
  | CfnOutput string string string string

text \<open>
  \<open>Repository name removalPolicy emptyOnDelete imageScanOnPush lifecycleRules\<close>, a rule
  being its description and its \<open>maxImageCount\<close>; \<open>Role id principal description
  managedPolicies\<close>; \<open>SecretRead id arn role\<close> is the imported secret with read access
  granted to the role; \<open>CfnOutput id value description exportName\<close>.
\<close>

record stack =
  stack_id :: string
  stack_props :: AppRunnerStackProps
  constructs :: "construct list"
  serviceUrl :: string
  tags :: "(string \<times> string) list"

definition secrets :: "string \<Rightarrow> (string \<times> string) list" where
  "secrets arn =
    [(''MYSQL_USER'', arn @ '':MYSQL_USER::''),
     (''MYSQL_PASSWORD'', arn @ '':MYSQL_PASSWORD::''),
     (''MYSQL_HOST'', arn @ '':MYSQL_HOST::''),
     (''MYSQL_DATABASE'', arn @ '':MYSQL_DATABASE::'')]"

definition imageConfiguration_of :: "AppRunnerStackProps \<Rightarrow> image_configuration" where
  "imageConfiguration_of props =
     (let port' = (case port props of None \<Rightarrow> 8080 | Some p \<Rightarrow> p);
          environmentVariables' = (case environmentVariables props of None \<Rightarrow> [] | Some e \<Rightarrow> e)
      in \<lparr>ic_port = toString port',
          runtimeEnvironmentVariables =
            [(''ENVIRONMENT'', environment props), (''PORT'', toString port')] @ environmentVariables',
          runtimeEnvironmentSecrets =
            (if truthy (secretsArn props) then Some (secrets (or_else (secretsArn props) []))
             else None)\<rparr>)"

definition service_constructs :: "string \<Rightarrow> AppRunnerStackProps \<Rightarrow> construct list" where
  "service_constructs sid props =
     [Role ''InstanceRole'' ''tasks.apprunner.amazonaws.com''
        (Some (''App Runner instance role for '' @ sid)) []] @
     (if truthy (secretsArn props)
      then [SecretRead ''Secret'' (or_else (secretsArn props) []) ''InstanceRole'']
      else []) @
     [Role ''AccessRole'' ''build.apprunner.amazonaws.com'' None
        [''service-role/AWSAppRunnerServicePolicyForECRAccess''],
      Service ''Service''
        \<lparr>serviceName = sid,
         accessRoleArn = attr ''AccessRole'' ''Arn'',
         autoDeploymentsEnabled = True,
         imageRepositoryType = ''ECR'',
         imageIdentifier = attr ''Repository'' ''RepositoryUri'' @ '':latest'',
         imageConfiguration = imageConfiguration_of props,
         instance_cpu = (case cpu props of None \<Rightarrow> ''1 vCPU'' | Some c \<Rightarrow> c),
         instance_memory = (case memory props of None \<Rightarrow> ''2 GB'' | Some m \<Rightarrow> m),
         instanceRoleArn = attr ''InstanceRole'' ''Arn'',
         healthCheck = (''HTTP'', ''/health'', 10, 5, 1, 5)\<rparr>,
      CfnOutput ''ServiceUrl'' (''https://'' @ attr ''Service'' ''ServiceUrl'')
        ''App Runner service URL'' (sid @ ''-ServiceUrl''),
      CfnOutput ''ServiceId'' (attr ''Service'' ''ServiceId'')
        ''App Runner service ID'' (sid @ ''-ServiceId'')]"

definition AppRunnerStack :: "string \<Rightarrow> AppRunnerStackProps \<Rightarrow> stack" where
  "AppRunnerStack sid props =
     (let createService' = (case createService props of None \<Rightarrow> True | Some b \<Rightarrow> b)
      in \<lparr>stack_id = sid,
          stack_props = props,
          constructs =
            [Repository (toLowerCase sid) ''DESTROY'' True True [(''Keep last 25 images'', 25)]] @
            (if createService' then service_constructs sid props else []) @
            [CfnOutput ''RepositoryUri'' (attr ''Repository'' ''RepositoryUri'')
               ''ECR repository URI'' (sid @ ''-RepositoryUri'')],
          serviceUrl = (if createService' then ''https://'' @ attr ''Service'' ''ServiceUrl'' else []),
          tags = [(''Stack'', ''AppRunner''), (''Environment'', environment props)]\<rparr>)"

subsection \<open>bin/app.ts\<close>

text \<open>
  The application reads the CDK context, the process environment and, when the
  variable \<^verbatim>\<open>USER\<close> is unset or empty, the output of \<^verbatim>\<open>whoami\<close>; \<open>None\<close> is the
  \<^verbatim>\<open>execSync\<close> that throws.
\<close>

record app_input =
  tryGetContext :: "string \<Rightarrow> string option"
  process_env :: "string \<Rightarrow> string option"
  execSync_whoami :: "string option"

definition getDefaultEnvironment :: "app_input \<Rightarrow> string" where
  "getDefaultEnvironment a =
     (if truthy (process_env a ''USER'') then ''preview-'' @ or_else (process_env a ''USER'') []
      else case execSync_whoami a of
             None \<Rightarrow> ''preview-local''
           | Some out \<Rightarrow> ''preview-'' @ trim out)"

definition app_environment :: "app_input \<Rightarrow> string" where
  "app_environment a = or_else (tryGetContext a ''environment'') (getDefaultEnvironment a)"

definition app_props :: "app_input \<Rightarrow> string \<Rightarrow> AppRunnerStackProps" where
  "app_props a e =
     \<lparr>env_account = process_env a ''CDK_DEFAULT_ACCOUNT'',
      env_region = or_else (process_env a ''CDK_DEFAULT_REGION'') ''us-east-1'',
      description = Some (''App Runner service for FastAPI sample - '' @ e),
      environment = e,
      cpu = Some ''1 vCPU'',
      memory = Some ''2 GB'',
      port = Some 8080,
      environmentVariables = Some [(''NODE_ENV'', ''production''), (''LOG_LEVEL'', ''info'')],
      secretsArn = None,
      createService = Some True\<rparr>"

text \<open>
  The constructors of aws-cdk-lib throw on arguments they do not accept, and the
  application then ends without declaring anything. The library is not part of the
  repository, so what it accepts is a parameter: the id and properties of a stack
  (\<^verbatim>\<open>super(scope, id, props)\<close>), the name of a repository (\<^verbatim>\<open>new ecr.Repository\<close>), the
  ARN of a secret (\<^verbatim>\<open>Secret.fromSecretArn\<close>), and the properties with which the
  constructor of \<^verbatim>\<open>PipelineStack\<close> completes.
\<close>

record PipelineStackProps =
  pipeline_account :: "string option"
  pipeline_region :: string
  pipeline_description :: string
  codeConnectionArn :: string
  repositoryName :: string
  branchName :: string

record cdk_lib =
  accepts_stack :: "string \<Rightarrow> AppRunnerStackProps \<Rightarrow> bool"
  accepts_repository :: "string \<Rightarrow> bool"
  accepts_secret :: "string \<Rightarrow> bool"
  accepts_pipeline :: "PipelineStackProps \<Rightarrow> bool"

datatype cdk_error =
    InvalidStackName string
  | InvalidRepositoryName string
  | InvalidSecretArn string
  | PipelineStackError

text \<open>
  \<^verbatim>\<open>new AppRunnerStack(app, id, props)\<close>: the constructor of lines 21-167 of
  \<^verbatim>\<open>apprunner-stack.ts\<close> with the checks of the library in the order in which it
  reaches them; the secret is imported only inside \<^verbatim>\<open>if (createService)\<close> and
  \<^verbatim>\<open>if (secretsArn)\<close>.
\<close>

definition new_AppRunnerStack :: "cdk_lib \<Rightarrow> string \<Rightarrow> AppRunnerStackProps \<Rightarrow> cdk_error + stack" where
  "new_AppRunnerStack lib sid props =
     (if \<not> accepts_stack lib sid props then Inl (InvalidStackName sid)
      else if \<not> accepts_repository lib (toLowerCase sid)
        then Inl (InvalidRepositoryName (toLowerCase sid))
      else if createService props \<noteq> Some False \<and> truthy (secretsArn props) \<and>
              \<not> accepts_secret lib (or_else (secretsArn props) [])
        then Inl (InvalidSecretArn (or_else (secretsArn props) []))
      else Inr (AppRunnerStack sid props))"

text \<open>The calls in their order; the first one that throws ends the application.\<close>

fun new_AppRunnerStacks ::
    "cdk_lib \<Rightarrow> (string \<times> AppRunnerStackProps) list \<Rightarrow> cdk_error + stack list" where
  "new_AppRunnerStacks lib [] = Inr []"
| "new_AppRunnerStacks lib ((sid, props) # calls) =
     (case new_AppRunnerStack lib sid props of
        Inl err \<Rightarrow> Inl err
      | Inr st \<Rightarrow>
          (case new_AppRunnerStacks lib calls of
             Inl err \<Rightarrow> Inl err
           | Inr sts \<Rightarrow> Inr (st # sts)))"

text \<open>The context values and the flags of lines 20-39.\<close>

definition app_codeConnectionArn :: "app_input \<Rightarrow> string" where
  "app_codeConnectionArn a =
     or_else (tryGetContext a ''codeConnectionArn'') (or_else (process_env a ''CODE_CONNECTION_ARN'') [])"

definition app_repositoryName :: "app_input \<Rightarrow> string" where
  "app_repositoryName a =
     or_else (tryGetContext a ''repositoryName'')
       (or_else (process_env a ''REPOSITORY_NAME'') ''maria-raluca-st/fastapi-sample-testing'')"

definition app_branchName :: "app_input \<Rightarrow> string" where
  "app_branchName a =
     or_else (tryGetContext a ''branchName'') (or_else (process_env a ''BRANCH_NAME'') ''main'')"

definition app_pipelineOnly :: "app_input \<Rightarrow> bool" where
  "app_pipelineOnly a \<longleftrightarrow> tryGetContext a ''pipelineOnly'' = Some ''true''"

text \<open>
  The calls of \<^verbatim>\<open>new AppRunnerStack\<close> the application makes (lines 41-78): one for an
  environment \<^verbatim>\<open>preview-*\<close>, with the context values \<open>secretsArn\<close> and
  \<open>createService\<close>; otherwise one for \<open>dev\<close> and one for \<open>prod\<close>, with
  \<open>createService\<close> true; none when \<open>pipelineOnly\<close> is set.
\<close>

definition app_runner_calls :: "app_input \<Rightarrow> (string \<times> AppRunnerStackProps) list" where
  "app_runner_calls a =
     (let environment' = app_environment a;
          createService' = (tryGetContext a ''createService'' \<noteq> Some ''false'');
          secretsArn' = tryGetContext a ''secretsArn''
      in if \<not> app_pipelineOnly a
         then if starts_with ''preview-'' environment'
              then [(''FastApiRunner-'' @ environment',
                     (app_props a environment')
                       \<lparr>secretsArn := secretsArn', createService := Some createService'\<rparr>)]
              else map (\<lambda>env. (''FastApiRunner-'' @ env, app_props a env)) [''dev'', ''prod'']
         else [])"

text \<open>The properties of the pipeline stack (lines 81-87).\<close>

definition app_pipeline_props :: "app_input \<Rightarrow> PipelineStackProps" where
  "app_pipeline_props a =
     \<lparr>pipeline_account = process_env a ''CDK_DEFAULT_ACCOUNT'',
      pipeline_region = or_else (process_env a ''CDK_DEFAULT_REGION'') ''us-east-1'',
      pipeline_description = ''CI/CD Pipeline for FastAPI Sample'',
      codeConnectionArn = app_codeConnectionArn a,
      repositoryName = app_repositoryName a,
      branchName = app_branchName a\<rparr>"

text \<open>
  What the application declares: the stacks of \<^verbatim>\<open>AppRunnerStack\<close>, the pipeline stack
  \<^verbatim>\<open>FastApiSamplePipelineStack\<close> when a connection ARN is given (lines 80-88, also
  with \<open>pipelineOnly\<close>), the two warnings otherwise (lines 89-96), and the tags of the
  application (lines 98-102). The pipeline stack is kept as its properties: the
  constructs that \<^verbatim>\<open>lib/pipeline-stack.ts\<close> makes of them are not expanded.
\<close>

record app_output =
  runner_stacks :: "stack list"
  pipeline_stack :: "(string \<times> PipelineStackProps) option"
  warnings :: "string list"
  app_tags :: "(string \<times> string) list"

definition app_warnings :: "string list" where
  "app_warnings =
    [[CHR 0xE2, CHR 0x9A, CHR 0xA0, CHR 0xEF, CHR 0xB8, CHR 0x8F]
       @ ''  CodeConnection ARN not provided. Pipeline stack will not be created.'',
     ''   Create connection: aws codestar-connections create-connection --provider-type GitHub'']"

definition app :: "cdk_lib \<Rightarrow> app_input \<Rightarrow> cdk_error + app_output" where
  "app lib a =
     (let tags' = [(''Project'', ''FastApiSample''), (''ManagedBy'', ''CDK'')] @
                  (if \<not> app_pipelineOnly a then [(''Environment'', app_environment a)] else [])
      in case new_AppRunnerStacks lib (app_runner_calls a) of
           Inl err \<Rightarrow> Inl err
         | Inr sts \<Rightarrow>
             if app_codeConnectionArn a \<noteq> []
             then if accepts_pipeline lib (app_pipeline_props a)
                  then Inr \<lparr>runner_stacks = sts,
                            pipeline_stack = Some (''FastApiSamplePipelineStack'', app_pipeline_props a),
                            warnings = [], app_tags = tags'\<rparr>
                  else Inl PipelineStackError
             else Inr \<lparr>runner_stacks = sts, pipeline_stack = None,
                       warnings = (if \<not> app_pipelineOnly a then app_warnings else []),
                       app_tags = tags'\<rparr>)"

text \<open>The stacks of \<^verbatim>\<open>AppRunnerStack\<close> of a run: none when the application has thrown.\<close>

definition declared :: "cdk_error + app_output \<Rightarrow> stack list" where
  "declared r = (case r of Inl err \<Rightarrow> [] | Inr out \<Rightarrow> runner_stacks out)"

text \<open>
  \<^verbatim>\<open>cdk deploy --context k=v ...\<close> runs the application with the pairs of the command
  line added to the context of the project.
\<close>

definition cdk_input :: "(string \<times> string) list \<Rightarrow> app_input \<Rightarrow> app_input" where
  "cdk_input pairs a = a\<lparr>tryGetContext := tryGetContext a ++ map_of pairs\<rparr>"

subsection \<open>What a stack contains\<close>

definition is_service :: "construct \<Rightarrow> bool" where
  "is_service c = (case c of Service i s \<Rightarrow> True | _ \<Rightarrow> False)"

definition is_role :: "construct \<Rightarrow> bool" where
  "is_role c = (case c of Role i p d m \<Rightarrow> True | _ \<Rightarrow> False)"

definition is_output :: "string \<Rightarrow> construct \<Rightarrow> bool" where
  "is_output key c = (case c of CfnOutput i x d e \<Rightarrow> i = key | _ \<Rightarrow> False)"

definition has_service :: "stack \<Rightarrow> bool" where
  "has_service st = list_ex is_service (constructs st)"

definition has_role :: "stack \<Rightarrow> bool" where
  "has_role st = list_ex is_role (constructs st)"

definition services :: "stack \<Rightarrow> service list" where
  "services st = concat (map (\<lambda>c. case c of Service i s \<Rightarrow> [s] | _ \<Rightarrow> []) (constructs st))"

definition variable_names :: "stack \<Rightarrow> string list" where
  "variable_names st =
     concat (map (\<lambda>s. map fst (runtimeEnvironmentVariables (imageConfiguration s))) (services st))"

text \<open>The repository and its output, which every stack has (lines 35-46 and 158-162).\<close>

definition the_repository :: "string \<Rightarrow> construct" where
  "the_repository sid =
     Repository (toLowerCase sid) ''DESTROY'' True True [(''Keep last 25 images'', 25)]"

definition the_repository_output :: "string \<Rightarrow> construct" where
  "the_repository_output sid =
     CfnOutput ''RepositoryUri'' (attr ''Repository'' ''RepositoryUri'')
       ''ECR repository URI'' (sid @ ''-RepositoryUri'')"

subsection \<open>Example inputs\<close>

text \<open>
  An operator \<^verbatim>\<open>alice\<close> with an empty project context; the same on a machine where
  \<^verbatim>\<open>USER\<close> is unset and \<^verbatim>\<open>whoami\<close> fails.
\<close>

definition alice :: app_input where
  "alice = \<lparr>tryGetContext = Map.empty, process_env = [''USER'' \<mapsto> ''alice''],
            execSync_whoami = Some (''alice'' @ [CHR 0x0A])\<rparr>"

definition nobody :: app_input where
  "nobody = \<lparr>tryGetContext = Map.empty, process_env = Map.empty, execSync_whoami = None\<rparr>"

text \<open>\<open>alice\<close> with a connection for the pipeline in her environment.\<close>

definition alice_connected :: app_input where
  "alice_connected =
     alice\<lparr>process_env := (process_env alice)(''CODE_CONNECTION_ARN'' \<mapsto>
       ''arn:aws:codeconnections:us-east-1:123456789012:connection/0123abcd'')\<rparr>"

text \<open>
  An instance of the checks of the library, for the examples: the name of a stack is
  made of letters, digits and hyphens, starts with a letter and has at most 128
  characters; the name of a repository has 2 to 256 characters, all of them lower-case
  letters, digits or one of \<^verbatim>\<open>. _ - /\<close>, each of these four between two letters or
  digits; a secret ARN starts with \<^verbatim>\<open>arn:\<close>; the pipeline stack is always built.
\<close>

definition is_letter :: "char \<Rightarrow> bool" where
  "is_letter c \<longleftrightarrow> (65::nat) \<le> of_char c \<and> of_char c \<le> (90::nat) \<or>
                 (97::nat) \<le> of_char c \<and> of_char c \<le> (122::nat)"

definition is_digit :: "char \<Rightarrow> bool" where
  "is_digit c \<longleftrightarrow> (48::nat) \<le> of_char c \<and> of_char c \<le> (57::nat)"

definition is_lower_or_digit :: "char \<Rightarrow> bool" where
  "is_lower_or_digit c \<longleftrightarrow> (97::nat) \<le> of_char c \<and> of_char c \<le> (122::nat) \<or> is_digit c"

definition stack_name_ok :: "string \<Rightarrow> bool" where
  "stack_name_ok n \<longleftrightarrow>
     (case n of [] \<Rightarrow> False | c # cs \<Rightarrow> is_letter c) \<and>
     list_all (\<lambda>c. is_letter c \<or> is_digit c \<or> c = CHR ''-'') n \<and> length n \<le> 128"

fun separated :: "bool \<Rightarrow> string \<Rightarrow> bool" where
  "separated after_word [] = after_word"
| "separated after_word (c # cs) =
     (if is_lower_or_digit c then separated True cs
      else if c \<in> set ''._-/'' then after_word \<and> separated False cs
      else False)"

definition repository_name_ok :: "string \<Rightarrow> bool" where
  "repository_name_ok n \<longleftrightarrow> 2 \<le> length n \<and> length n \<le> 256 \<and> separated False n"

definition cdk2 :: cdk_lib where
  "cdk2 = \<lparr>accepts_stack = (\<lambda>n p. stack_name_ok n), accepts_repository = repository_name_ok,
           accepts_secret = starts_with ''arn:'', accepts_pipeline = (\<lambda>p. True)\<rparr>"

section \<open>Properties of runs\<close>

subsection \<open>What a trace contains\<close>

text \<open>The stack-existence probe, the two deployments, the queries for the outputs.\<close>

definition is_probe :: "event \<Rightarrow> bool" where
  "is_probe e = (case e of Run (DescribeStacks n r) \<Rightarrow> True | _ \<Rightarrow> False)"

definition is_deploy :: "bool \<Rightarrow> event \<Rightarrow> bool" where
  "is_deploy service e =
     (case e of
        Run (CdkDeploy pairs) \<Rightarrow> (map_of pairs ''createService'' \<noteq> Some ''false'') = service
      | _ \<Rightarrow> False)"

definition is_bootstrap_deploy :: "event \<Rightarrow> bool" where
  "is_bootstrap_deploy e = is_deploy False e"

definition is_full_deploy :: "event \<Rightarrow> bool" where
  "is_full_deploy e = is_deploy True e"

definition is_output_query :: "string \<Rightarrow> event \<Rightarrow> bool" where
  "is_output_query key e =
     (case e of Run (DescribeStackOutput n k r) \<Rightarrow> k = key | _ \<Rightarrow> False)"

text \<open>
  Building and pushing the image: the docker commands of \<^verbatim>\<open>deploy.sh\<close>, and in
  \<^verbatim>\<open>deploy-no-docker.sh\<close> the packaging of the source, its upload and the CodeBuild
  commands.
\<close>

definition is_publish :: "event \<Rightarrow> bool" where
  "is_publish e =
     (case e of
        Run (DockerBuild t) \<Rightarrow> True
      | Run (EcrLogin r u) \<Rightarrow> True
      | Run (DockerTag t u) \<Rightarrow> True
      | Run (DockerPush u) \<Rightarrow> True
      | Run (Zip f) \<Rightarrow> True
      | Run (S3Cp f u) \<Rightarrow> True
      | Run (CreateProject n b r g) \<Rightarrow> True
      | Run (StartBuild n u r) \<Rightarrow> True
      | Run (BatchGetBuilds b r) \<Rightarrow> True
      | _ \<Rightarrow> False)"

text \<open>
  A step of a script only adds events to the trace, and when it ends the script it does
  so with a status other than 0 (\<^verbatim>\<open>exit 1\<close>, or the status of the failed command).
  \<open>emits P f\<close>: moreover every event \<open>f\<close> adds satisfies \<open>P\<close>.
\<close>

definition emits :: "(event \<Rightarrow> bool) \<Rightarrow> step \<Rightarrow> bool" where
  "emits P f \<longleftrightarrow>
     (\<forall>w s. exited s = None \<longrightarrow>
        (\<exists>es. trace (f w s) = trace s @ es \<and> list_all P es) \<and> exited (f w s) \<noteq> Some 0)"

text \<open>An output of the stack that is missing: the empty string or \<^verbatim>\<open>None\<close>.\<close>

definition absent :: "string \<Rightarrow> bool" where
  "absent u \<longleftrightarrow> u = [] \<or> u = ''None''"

text \<open>What the scripts print after the query for the service URL when it is missing.\<close>

definition report_without_url :: "string \<Rightarrow> string list" where
  "report_without_url name =
    [[],
     ''Deployment complete!'',
     ''Note: Service URL not available yet. Check AWS Console for status.'',
     [],
     ''Usage examples:'',
     ''  ./scripts/'' @ name @ ''                  # Deploy to preview-$(whoami)'',
     ''  ./scripts/'' @ name @ '' dev              # Deploy to dev'',
     ''  ./scripts/'' @ name @ '' prod             # Deploy to production'']"

text \<open>The statuses at which the loop of \<^verbatim>\<open>deploy-no-docker.sh\<close> stops.\<close>

definition terminal_status :: "string \<Rightarrow> bool" where
  "terminal_status b \<longleftrightarrow> b = ''SUCCEEDED'' \<or> failed_status b"

definition build_status :: "world \<Rightarrow> nat \<Rightarrow> string" where
  "build_status w k = strip_nl (snd (build_query w k))"

definition is_build_query :: "event \<Rightarrow> bool" where
  "is_build_query e = (case e of Run (BatchGetBuilds b r) \<Rightarrow> True | _ \<Rightarrow> False)"

definition build_queries :: "sh \<Rightarrow> nat" where
  "build_queries s = length (filter is_build_query (trace s))"

text \<open>The events of the loop: messages, queries for the build and sleeps.\<close>

definition loop_event :: "event \<Rightarrow> bool" where
  "loop_event e =
     (case e of Echo m \<Rightarrow> True | Run (BatchGetBuilds b r) \<Rightarrow> True | Run (Sleep n) \<Rightarrow> True
      | _ \<Rightarrow> False)"

text \<open>
  The terminal statuses as the specification lists them, to be compared with
  \<open>terminal_status\<close>, which is the script's test.
\<close>

definition specified_terminal :: "string list" where
  "specified_terminal = [''SUCCEEDED'', ''FAILED'', ''FAULTED'', ''TIMED_OUT'', ''STOPPED'']"

subsection \<open>Example worlds\<close>

text \<open>
  A world in which every command succeeds and prints nothing, except at the listed
  lines; the queries for the build answer \<open>qs\<close> in turn and \<open>q\<close> from then on.
\<close>

definition example_world ::
    "string option \<Rightarrow> (nat \<times> nat \<times> string) list \<Rightarrow> (nat \<times> string) list \<Rightarrow> nat \<times> string \<Rightarrow> world" where
  "example_world a rs qs q =
     \<lparr>arg1 = a, env_AWS_REGION = None,
      result = (\<lambda>l. case map_of rs l of None \<Rightarrow> (0, []) | Some r \<Rightarrow> r),
      build_query = (\<lambda>k. if k < length qs then qs ! k else q)\<rparr>"

definition stack_missing :: string where
  "stack_missing =
     ''An error occurred (ValidationError) when calling the DescribeStacks operation: ''
     @ ''Stack with id FastApiRunner-dev does not exist'' @ [CHR 0x0A]"

definition registry :: string where
  "registry = ''123456789012.dkr.ecr.us-east-1.amazonaws.com/fastapirunner-dev'' @ [CHR 0x0A]"

text \<open>
  A first deployment to \<open>dev\<close>, seen by either script: the stack does not exist, the
  build succeeds at the third query, the service has no URL yet.
\<close>

definition first_deploy :: world where
  "first_deploy =
     example_world (Some ''dev'')
       [(124, 254, stack_missing), (136, 0, registry), (171, 0, ''None'' @ [CHR 0x0A]),
        (37, 254, stack_missing), (49, 0, registry), (234, 0, ''None'' @ [CHR 0x0A])]
       [(0, ''IN_PROGRESS'' @ [CHR 0x0A]), (0, ''IN_PROGRESS'' @ [CHR 0x0A])]
       (0, ''SUCCEEDED'' @ [CHR 0x0A])"


text \<open>Worlds in which the build fails at the second query, and never ends.\<close>

definition failing_build :: world where
  "failing_build =
     example_world (Some ''dev'') [(49, 0, registry)]
       [(0, ''IN_PROGRESS'' @ [CHR 0x0A])] (0, ''FAILED'' @ [CHR 0x0A])"

definition stuck_build :: world where
  "stuck_build =
     example_world (Some ''dev'') [(49, 0, registry)] [] (0, ''IN_PROGRESS'' @ [CHR 0x0A])"

text \<open>Worlds in which CodeBuild answers \<^verbatim>\<open>FAULT\<close>, and \<^verbatim>\<open>FAULTED\<close> before \<^verbatim>\<open>SUCCEEDED\<close>.\<close>

definition fault_build :: world where
  "fault_build = example_world (Some ''dev'') [(49, 0, registry)] [] (0, ''FAULT'' @ [CHR 0x0A])"

definition faulted_build :: world where
  "faulted_build =
     example_world (Some ''dev'') [(49, 0, registry)]
       [(0, ''FAULTED'' @ [CHR 0x0A])] (0, ''SUCCEEDED'' @ [CHR 0x0A])"

text \<open>A world in which the stack has no output \<^verbatim>\<open>RepositoryUri\<close>.\<close>

definition no_registry :: world where
  "no_registry =
     example_world (Some ''dev'') [(136, 0, ''None'' @ [CHR 0x0A]), (49, 0, ''None'' @ [CHR 0x0A])]
       [] (0, ''SUCCEEDED'' @ [CHR 0x0A])"

text \<open>No argument, and \<^verbatim>\<open>whoami\<close> fails (lines 90 and 5).\<close>

definition no_identity :: world where
  "no_identity = example_world None [(90, 1, []), (5, 1, [])] [] (0, [])"

text \<open>An empty argument, and \<^verbatim>\<open>whoami\<close> prints \<^verbatim>\<open>alice\<close>.\<close>

definition empty_argument :: world where
  "empty_argument =
     example_world (Some []) [(90, 0, ''alice'' @ [CHR 0x0A]), (5, 0, ''alice'' @ [CHR 0x0A])] [] (0, [])"

section \<open>Proofs\<close>

subsection \<open>Steps and lists of steps\<close>

lemma exec_exited: "exited (s::sh) \<noteq> None \<Longrightarrow> exec fs w s = s"
  by (cases fs) auto

lemma exec_append: "exec (fs @ gs) w s = exec gs w (exec fs w s)"
  by (induction fs arbitrary: s) (auto simp: exec_exited)

lemma emitsI:
  "(\<And>w (s::sh). exited s = None \<Longrightarrow> \<exists>es. trace (f w s) = trace s @ es \<and> list_all P es) \<Longrightarrow>
   (\<And>w (s::sh). exited s = None \<Longrightarrow> exited (f w s) \<noteq> Some 0) \<Longrightarrow> emits P f"
  by (simp add: emits_def)

lemma emits_exec: "list_all (emits P) fs \<Longrightarrow> emits P (exec fs)"
proof (induction fs)
  case Nil
  show ?case by (simp add: emits_def)
next
  case (Cons f fs)
  then have f: "emits P f" and fs: "emits P (exec fs)" by simp_all
  show ?case
    unfolding emits_def
  proof (intro allI impI)
    fix w and s :: sh
    assume s: "exited s = None"
    from f s obtain es where es: "trace (f w s) = trace s @ es" "list_all P es"
      and ex: "exited (f w s) \<noteq> Some 0"
      unfolding emits_def by blast
    show "(\<exists>es. trace (exec (f # fs) w s) = trace s @ es \<and> list_all P es) \<and>
          exited (exec (f # fs) w s) \<noteq> Some 0"
    proof (cases "exited (f w s) = None")
      case True
      with fs obtain es' where "trace (exec fs w (f w s)) = trace (f w s) @ es'" "list_all P es'"
        and "exited (exec fs w (f w s)) \<noteq> Some 0"
        unfolding emits_def by blast
      with es s show ?thesis by auto
    next
      case False
      then have "exec fs w (f w s) = f w s" by (rule exec_exited)
      with es ex s show ?thesis by auto
    qed
  qed
qed

lemma emits_echo: "(\<And>s. P (Echo (m s))) \<Longrightarrow> emits P (echo m)"
  by (simp add: emits_def echo_def emit_def)

lemma emits_exit: "n \<noteq> 0 \<Longrightarrow> emits P (exit_sh n)"
  by (simp add: emits_def exit_sh_def)

lemma emits_assign: "emits P (assign x e)"
  by (simp add: emits_def assign_def)

lemma emits_run: "(\<And>s. P (Run (c s))) \<Longrightarrow> emits P (run l c)"
  by (simp add: emits_def run_def emit_def Let_def)

lemma emits_run_or_true: "(\<And>s. P (Run (c s))) \<Longrightarrow> emits P (run_or_true c)"
  by (simp add: emits_def run_or_true_def emit_def)

lemma emits_run_or_echo: "(\<And>s. P (Run (c s))) \<Longrightarrow> P (Echo m) \<Longrightarrow> emits P (run_or_echo l c m)"
  by (simp add: emits_def run_or_echo_def emit_def Let_def)

lemma emits_assign_cmd: "(\<And>s. P (Run (c s))) \<Longrightarrow> emits P (assign_cmd x l c g)"
  by (simp add: emits_def assign_cmd_def emit_def Let_def)

lemma emits_assign_cmd_or: "(\<And>s. P (Run (c s))) \<Longrightarrow> emits P (assign_cmd_or x l c d)"
  by (simp add: emits_def assign_cmd_or_def emit_def Let_def)

lemma emits_if_then: "list_all (emits P) body \<Longrightarrow> emits P (if_then b body)"
  using emits_exec[of P body] by (simp add: emits_def if_then_def)

lemma emits_if_then_else:
  "list_all (emits P) body1 \<Longrightarrow> list_all (emits P) body2 \<Longrightarrow> emits P (if_then_else b body1 body2)"
  using emits_exec[of P body1] emits_exec[of P body2] by (simp add: emits_def if_then_else_def)

lemma emits_if_not_cmd:
  assumes "\<And>s. P (Run (c s))" and "list_all (emits P) body"
  shows "emits P (if_not_cmd l c body)"
proof (rule emitsI)
  fix w and s :: sh
  assume s: "exited s = None"
  let ?s = "emit (Run (c s)) s"
  have s': "exited ?s = None" "trace ?s = trace s @ [Run (c s)]" using s by (simp_all add: emit_def)
  from emits_exec[OF assms(2)] s'(1) obtain es where
    "trace (exec body w ?s) = trace ?s @ es" "list_all P es" "exited (exec body w ?s) \<noteq> Some 0"
    unfolding emits_def by blast
  with s' assms(1) show "\<exists>es. trace (if_not_cmd l c body w s) = trace s @ es \<and> list_all P es"
    by (auto simp: if_not_cmd_def Let_def)
  from emits_exec[OF assms(2)] s'(1) have "exited (exec body w ?s) \<noteq> Some 0"
    unfolding emits_def by blast
  with s' show "exited (if_not_cmd l c body w s) \<noteq> Some 0"
    by (auto simp: if_not_cmd_def Let_def)
qed

lemmas emits_intros =
  emits_echo emits_exit emits_assign emits_run emits_run_or_true emits_run_or_echo
  emits_assign_cmd emits_assign_cmd_or emits_if_then emits_if_then_else emits_if_not_cmd


lemma exec_trace:
  assumes "list_all (emits P) fs"
  shows "\<exists>es. trace (exec fs w s) = trace s @ es \<and> list_all P es"
proof (cases "exited s = None")
  case True
  with emits_exec[OF assms] show ?thesis unfolding emits_def by blast
next
  case False
  then show ?thesis by (simp add: exec_exited)
qed

lemma exec_status:
  assumes "list_all (emits P) fs" and "exited s \<noteq> Some 0"
  shows "exited (exec fs w s) \<noteq> Some 0"
proof (cases "exited s = None")
  case True
  with emits_exec[OF assms(1)] show ?thesis unfolding emits_def by blast
next
  case False
  with assms(2) show ?thesis by (simp add: exec_exited)
qed

lemmas event_defs =
  is_probe_def is_bootstrap_deploy_def is_full_deploy_def is_deploy_def is_publish_def
  is_output_query_def bootstrap_context_def full_context_def

lemmas block_defs =
  setup_A_def setup_B_def resolve_def check_aws_def install_cdk_def probe_bootstrap_def
  repository_uri_def publish_A_def full_deploy_def report_def package_B_def project_B_def
  create_project_B_def create_role_B_def start_build_B_def after_B_def build_succeeded_def
  build_failed_def build_waiting_def





lemma list_all_not_ex: "list_all (\<lambda>e. \<not> P e) es \<Longrightarrow> \<not> list_ex P es"
  by (induction es) auto


subsection \<open>The probe and the first deployment\<close>



subsection \<open>The loop that waits for the build\<close>


lemma query_build_emits: "emits loop_event (query_build k)"
  by (simp add: emits_def query_build_def emit_def Let_def loop_event_def)

lemma loop_blocks:
  "list_all (emits loop_event) build_succeeded"
  "list_all (emits loop_event) build_failed"
  "list_all (emits loop_event) build_waiting"
  by (simp_all add: block_defs emits_intros loop_event_def)

lemma emits_step:
  assumes "emits P f" and "exited s = None"
  obtains es where "trace (f w s) = trace s @ es" "list_all P es" "exited (f w s) \<noteq> Some 0"
  using assms unfolding emits_def by blast

lemma wait_for_build_emits:
  assumes "wait_for_build k w s = Some s'" and "exited s = None"
  shows "(\<exists>es. trace s' = trace s @ es \<and> list_all loop_event es) \<and> exited s' \<noteq> Some 0"
proof -
  have "exited s = None \<longrightarrow>
        (\<exists>es. trace s' = trace s @ es \<and> list_all loop_event es) \<and> exited s' \<noteq> Some 0"
  proof (rule wait_for_build.raw_induct[where P = "\<lambda>k w s s'. exited s = None \<longrightarrow>
        (\<exists>es. trace s' = trace s @ es \<and> list_all loop_event es) \<and> exited s' \<noteq> Some 0", OF _ assms(1)],
      rule impI)
  fix wait :: "nat \<Rightarrow> world \<Rightarrow> sh \<Rightarrow> sh option" and k w and s s' :: sh
  assume IH: "\<And>k w (s::sh) (s'::sh). wait k w s = Some s' \<Longrightarrow> exited s = None \<longrightarrow>
        (\<exists>es. trace s' = trace s @ es \<and> list_all loop_event es) \<and> exited s' \<noteq> Some 0"
  assume hyps: "(if exited (query_build k w s) \<noteq> None then Some (query_build k w s)
      else if v ''BUILD_STATUS'' (query_build k w s) = ''SUCCEEDED''
        then Some (exec build_succeeded w (query_build k w s))
      else if failed_status (v ''BUILD_STATUS'' (query_build k w s))
        then Some (exec build_failed w (query_build k w s))
      else wait (Suc k) w (exec build_waiting w (query_build k w s))) = Some s'"
  assume prems: "exited s = None"
  let ?q = "query_build k w s"
  obtain eq where eq: "trace ?q = trace s @ eq" "list_all loop_event eq" "exited ?q \<noteq> Some 0"
    using emits_step[OF query_build_emits prems] by metis
  show "(\<exists>es. trace s' = trace s @ es \<and> list_all loop_event es) \<and> exited s' \<noteq> Some 0"
  proof (cases "exited ?q = None")
    case False
    with hyps eq show ?thesis by auto
  next
    case q: True
    consider (ok) "v ''BUILD_STATUS'' ?q = ''SUCCEEDED''"
      | (bad) "v ''BUILD_STATUS'' ?q \<noteq> ''SUCCEEDED''" "failed_status (v ''BUILD_STATUS'' ?q)"
      | (go) "v ''BUILD_STATUS'' ?q \<noteq> ''SUCCEEDED''" "\<not> failed_status (v ''BUILD_STATUS'' ?q)"
      by blast
    then show ?thesis
    proof cases
      case ok
      with hyps q have s': "s' = exec build_succeeded w ?q" by simp
      obtain es where "trace s' = trace ?q @ es" "list_all loop_event es"
        using exec_trace[OF loop_blocks(1), of w ?q] unfolding s' by blast
      moreover have "exited s' \<noteq> Some 0"
        unfolding s' using exec_status[OF loop_blocks(1)] eq(3) by blast
      ultimately show ?thesis using eq by auto
    next
      case bad
      with hyps q have s': "s' = exec build_failed w ?q" by simp
      obtain es where "trace s' = trace ?q @ es" "list_all loop_event es"
        using exec_trace[OF loop_blocks(2), of w ?q] unfolding s' by blast
      moreover have "exited s' \<noteq> Some 0"
        unfolding s' using exec_status[OF loop_blocks(2)] eq(3) by blast
      ultimately show ?thesis using eq by auto
    next
      case go
      let ?n = "exec build_waiting w ?q"
      from go hyps q have call: "wait (Suc k) w ?n = Some s'" by simp
      have n: "exited ?n = None"
        using q by (simp add: build_waiting_def echo_def run_or_true_def emit_def)
      obtain en where en: "trace ?n = trace ?q @ en" "list_all loop_event en"
        using exec_trace[OF loop_blocks(3), of w ?q] by blast
      from IH[OF call] n obtain es where "trace s' = trace ?n @ es" "list_all loop_event es"
        and "exited s' \<noteq> Some 0" by blast
      with en eq show ?thesis by auto
    qed
  qed
  qed
  with assms(2) show ?thesis by blast
qed

lemma query_build_ok:
  assumes "exited s = None" and "fst (build_query w k) = 0"
  shows "exited (query_build k w s) = None"
    and "v ''BUILD_STATUS'' (query_build k w s) = build_status w k"
  using assms by (simp_all add: query_build_def Let_def emit_def v_def build_status_def)

lemma wait_step:
  assumes "exited s = None" and "fst (build_query w k) = 0"
    and "\<not> terminal_status (build_status w k)"
  shows "wait_for_build k w s = wait_for_build (Suc k) w (exec build_waiting w (query_build k w s))"
  using query_build_ok[OF assms(1,2)] assms(3)
  by (subst wait_for_build.simps) (simp add: terminal_status_def)

lemma waiting_ok: "exited s = None \<Longrightarrow> exited (exec build_waiting w s) = None"
  by (simp add: build_waiting_def echo_def run_or_true_def emit_def)

lemma wait_fails:
  assumes "exited s = None"
    and "\<forall>j<n. fst (build_query w (k + j)) = 0 \<and> \<not> terminal_status (build_status w (k + j))"
    and "fst (build_query w (k + n)) = 0" and "failed_status (build_status w (k + n))"
  shows "\<exists>s'. wait_for_build k w s = Some s' \<and> exited s' = Some 1"
  using assms
proof (induction n arbitrary: k s)
  case 0
  then have q: "exited (query_build k w s) = None"
    "v ''BUILD_STATUS'' (query_build k w s) = build_status w k"
    using query_build_ok[of s w k] by simp_all
  from 0 have "build_status w k \<noteq> ''SUCCEEDED''"
    by (auto simp: failed_status_def)
  with q 0 have "wait_for_build k w s = Some (exec build_failed w (query_build k w s))"
    by (subst wait_for_build.simps) simp
  moreover have "exited (exec build_failed w (query_build k w s)) = Some 1"
    using q by (simp add: build_failed_def echo_def exit_sh_def emit_def)
  ultimately show ?case by simp
next
  case (Suc n)
  from Suc.prems(2) have k: "fst (build_query w k) = 0" "\<not> terminal_status (build_status w k)"
    by (metis add.right_neutral zero_less_Suc)+
  let ?n = "exec build_waiting w (query_build k w s)"
  have step: "wait_for_build k w s = wait_for_build (Suc k) w ?n"
    using wait_step[OF Suc.prems(1) k] .
  have n: "exited ?n = None"
    using query_build_ok(1)[OF Suc.prems(1) k(1)] by (rule waiting_ok)
  have "\<forall>j<n. fst (build_query w (Suc k + j)) = 0 \<and> \<not> terminal_status (build_status w (Suc k + j))"
    using Suc.prems(2) by (metis Suc_less_eq add_Suc_shift)
  from Suc.IH[OF n this] Suc.prems(3,4) step show ?case by simp
qed

lemma wait_returns:
  assumes "wait_for_build k w s = Some s'" and "exited s = None"
  shows "\<exists>j\<ge>k. fst (build_query w j) \<noteq> 0 \<or> terminal_status (build_status w j)"
proof -
  have "exited s = None \<longrightarrow>
        (\<exists>j\<ge>k. fst (build_query w j) \<noteq> 0 \<or> terminal_status (build_status w j))"
  proof (rule wait_for_build.raw_induct[where P = "\<lambda>k w s s'. exited s = None \<longrightarrow>
        (\<exists>j\<ge>k. fst (build_query w j) \<noteq> 0 \<or> terminal_status (build_status w j))", OF _ assms(1)],
      rule impI)
    fix wait :: "nat \<Rightarrow> world \<Rightarrow> sh \<Rightarrow> sh option" and k w and s s' :: sh
    assume IH: "\<And>k w (s::sh) (s'::sh). wait k w s = Some s' \<Longrightarrow> exited s = None \<longrightarrow>
        (\<exists>j\<ge>k. fst (build_query w j) \<noteq> 0 \<or> terminal_status (build_status w j))"
    assume hyps: "(if exited (query_build k w s) \<noteq> None then Some (query_build k w s)
      else if v ''BUILD_STATUS'' (query_build k w s) = ''SUCCEEDED''
        then Some (exec build_succeeded w (query_build k w s))
      else if failed_status (v ''BUILD_STATUS'' (query_build k w s))
        then Some (exec build_failed w (query_build k w s))
      else wait (Suc k) w (exec build_waiting w (query_build k w s))) = Some s'"
    assume prems: "exited s = None"
    show "\<exists>j\<ge>k. fst (build_query w j) \<noteq> 0 \<or> terminal_status (build_status w j)"
    proof (cases "fst (build_query w k) \<noteq> 0 \<or> terminal_status (build_status w k)")
      case True
      then show ?thesis by blast
    next
      case False
      then have k: "fst (build_query w k) = 0" "\<not> terminal_status (build_status w k)" by simp_all
      note q = query_build_ok[OF prems k(1)]
      from hyps q k(2) have "wait (Suc k) w (exec build_waiting w (query_build k w s)) = Some s'"
        by (simp add: terminal_status_def)
      from IH[OF this] waiting_ok[OF q(1)] show ?thesis
        by (meson Suc_leD)
    qed
  qed
  with assms(2) show ?thesis by blast
qed


lemma before_B_no_full:
  "list_all (emits (\<lambda>e. \<not> is_full_deploy e)) before_B"
  by (simp add: before_B_def block_defs emits_intros event_defs)

lemma loop_event_plain:
  "loop_event e \<Longrightarrow> \<not> is_probe e \<and> \<not> is_bootstrap_deploy e \<and> \<not> is_full_deploy e \<and>
     \<not> is_output_query k e"
  by (auto simp: loop_event_def event_defs split: event.splits cmd.splits)

lemma list_all_mono: "list_all P es \<Longrightarrow> (\<And>e. P e \<Longrightarrow> Q e) \<Longrightarrow> list_all Q es"
  by (induction es) auto

lemma deploy_no_docker_cases:
  assumes "deploy_no_docker w = Some s"
  obtains (early) "exited (exec before_B w (init w)) \<noteq> None" "s = exec before_B w (init w)"
  | (loop) s1 where "exited (exec before_B w (init w)) = None"
      "wait_for_build 0 w (exec before_B w (init w)) = Some s1" "s = exec after_B w s1"
  using assms by (auto simp: deploy_no_docker_def Let_def split: if_splits)






subsection \<open>A build that never ends\<close>

text \<open>
  C9. The loop has no bound: when every query succeeds and none answers with a terminal
  status, the loop does not return, and neither does the script once it has reached
  the loop.
\<close>

theorem wait_for_build_unbounded:
  assumes "\<forall>j. fst (build_query w j) = 0 \<and> \<not> terminal_status (build_status w j)"
  shows "(exited s = None \<longrightarrow> wait_for_build k w s = None) \<and>
         (exited (exec before_B w (init w)) = None \<longrightarrow> deploy_no_docker w = None)"
proof -
  have loop: "wait_for_build k w s = None" if "exited s = None" for k and s :: sh
  proof (cases "wait_for_build k w s")
    case None
    then show ?thesis .
  next
    case (Some s')
    from wait_returns[OF Some that] assms show ?thesis by auto
  qed
  then show ?thesis
    by (simp add: deploy_no_docker_def Let_def)
qed


text \<open>The world \<open>stuck_build\<close>, where the build stays \<^verbatim>\<open>IN_PROGRESS\<close>.\<close>

theorem wait_for_build_unbounded_witness:
  "(\<forall>j. fst (build_query stuck_build j) = 0 \<and> \<not> terminal_status (build_status stuck_build j)) \<and>
   wait_for_build 0 stuck_build (init stuck_build) = None \<and> deploy_no_docker stuck_build = None"
proof -
  have q: "build_query stuck_build j = (0, ''IN_PROGRESS'' @ [CHR 0x0A])" for j
    by (simp add: stuck_build_def example_world_def)
  have "\<not> terminal_status (strip_nl (''IN_PROGRESS'' @ [CHR 0x0A]))"
    by code_simp
  with q have h: "\<forall>j. fst (build_query stuck_build j) = 0 \<and> \<not> terminal_status (build_status stuck_build j)"
    by (simp add: build_status_def)
  have i: "exited (init stuck_build) = None" by (simp add: init_def)
  have b: "exited (exec before_B stuck_build (init stuck_build)) = None"
    by code_simp
  from wait_for_build_unbounded[OF h, of "init stuck_build" 0] h i b show ?thesis by blast
qed

subsection \<open>One turn of the loop\<close>

lemma query_build_trace:
  "trace (query_build k w s) = trace s @ [Run (BatchGetBuilds (v ''BUILD_ID'' s) (v ''REGION'' s))]"
  by (simp add: query_build_def Let_def emit_def)

lemma waiting_trace:
  "trace (exec build_waiting w s) =
     (if exited s = None
      then trace s @ [Echo (''Build status: '' @ v ''BUILD_STATUS'' s @ '' (waiting...)''), Run (Sleep 10)]
      else trace s)"
  by (simp add: build_waiting_def echo_def run_or_true_def emit_def v_def)


lemma wait_first_query:
  assumes "wait_for_build k w s = Some s'" and "exited s = None"
  shows "\<exists>es. trace s' = trace s @ Run (BatchGetBuilds (v ''BUILD_ID'' s) (v ''REGION'' s)) # es"
proof -
  let ?q = "query_build k w s"
  note unfold = wait_for_build.simps[of k w s]
  have "\<exists>es. trace s' = trace ?q @ es"
  proof (cases "exited ?q = None")
    case False
    with assms(1) unfold have "s' = ?q" by simp
    then show ?thesis by simp
  next
    case q: True
    show ?thesis
    proof (cases "terminal_status (v ''BUILD_STATUS'' ?q)")
      case True
      with assms(1) unfold q
      have "s' = exec build_succeeded w ?q \<or> s' = exec build_failed w ?q"
        by (simp add: terminal_status_def split: if_splits)
      with exec_trace[OF loop_blocks(1), of w ?q] exec_trace[OF loop_blocks(2), of w ?q]
      show ?thesis by auto
    next
      case False
      with assms(1) unfold q
      have "wait_for_build (Suc k) w (exec build_waiting w ?q) = Some s'"
        by (simp add: terminal_status_def)
      from wait_for_build_emits[OF this waiting_ok[OF q]]
        exec_trace[OF loop_blocks(3), of w ?q]
      show ?thesis by auto
    qed
  qed
  then show ?thesis by (auto simp: query_build_trace)
qed

text \<open>
  C1 (amended). After a query that succeeds, the loop stops without another query if
  and only if the status is one of \<^verbatim>\<open>SUCCEEDED\<close>, \<^verbatim>\<open>FAILED\<close>, \<^verbatim>\<open>FAULT\<close>,
  \<^verbatim>\<open>TIMED_OUT\<close>, \<^verbatim>\<open>STOPPED\<close>; for every other status it prints the status, sleeps
  10 seconds and queries again.
\<close>

theorem wait_for_build_stops_iff_terminal:
  assumes "exited s = None" and "fst (build_query w k) = 0"
  shows "((\<exists>s'. wait_for_build k w s = Some s' \<and> build_queries s' = build_queries s + 1)
            \<longleftrightarrow> terminal_status (build_status w k)) \<and>
         (\<not> terminal_status (build_status w k) \<longrightarrow>
            (\<exists>s2. wait_for_build k w s = wait_for_build (Suc k) w s2 \<and> exited s2 = None \<and>
               trace s2 = trace s @
                 [Run (BatchGetBuilds (v ''BUILD_ID'' s) (v ''REGION'' s)),
                  Echo (''Build status: '' @ build_status w k @ '' (waiting...)''),
                  Run (Sleep 10)]))"
proof -
  let ?q = "query_build k w s"
  let ?n = "exec build_waiting w ?q"
  note q = query_build_ok[OF assms]
  have n: "exited ?n = None"
    "trace ?n = trace s @
       [Run (BatchGetBuilds (v ''BUILD_ID'' s) (v ''REGION'' s)),
        Echo (''Build status: '' @ build_status w k @ '' (waiting...)''),
        Run (Sleep 10)]"
    using q by (simp_all add: waiting_ok waiting_trace query_build_trace)
  have go: "wait_for_build k w s = wait_for_build (Suc k) w ?n"
    if "\<not> terminal_status (build_status w k)"
    using wait_step[OF assms that] .
  have stop: "\<exists>s'. wait_for_build k w s = Some s' \<and> build_queries s' = build_queries s + 1"
    if t: "terminal_status (build_status w k)"
  proof (cases "build_status w k = ''SUCCEEDED''")
    case True
    with q have "wait_for_build k w s = Some (exec build_succeeded w ?q)"
      by (subst wait_for_build.simps) simp
    moreover have "build_queries (exec build_succeeded w ?q) = build_queries s + 1"
      using q by (simp add: build_succeeded_def echo_def emit_def build_queries_def
          query_build_trace is_build_query_def)
    ultimately show ?thesis by simp
  next
    case False
    with t have "failed_status (build_status w k)" by (simp add: terminal_status_def)
    with False q have "wait_for_build k w s = Some (exec build_failed w ?q)"
      by (subst wait_for_build.simps) simp
    moreover have "build_queries (exec build_failed w ?q) = build_queries s + 1"
      using q by (simp add: build_failed_def echo_def exit_sh_def emit_def build_queries_def
          query_build_trace is_build_query_def)
    ultimately show ?thesis by simp
  qed
  have more: "build_queries s' \<noteq> build_queries s + 1"
    if "\<not> terminal_status (build_status w k)" and "wait_for_build k w s = Some s'" for s'
  proof -
    from that go have "wait_for_build (Suc k) w ?n = Some s'" by simp
    from wait_first_query[OF this n(1)] n(2) show ?thesis
      by (auto simp: build_queries_def is_build_query_def)
  qed
  from stop more go n show ?thesis by blast
qed


text \<open>The first and the third query of \<open>first_deploy\<close>.\<close>

theorem wait_for_build_stops_iff_terminal_witness:
  "exited (init first_deploy) = None \<and> fst (build_query first_deploy 0) = 0 \<and>
   \<not> terminal_status (build_status first_deploy 0) \<and>
   fst (build_query first_deploy 2) = 0 \<and> terminal_status (build_status first_deploy 2) \<and>
   (\<exists>s2. wait_for_build 0 first_deploy (init first_deploy) = wait_for_build (Suc 0) first_deploy s2 \<and>
      exited s2 = None \<and>
      trace s2 = trace (init first_deploy) @
        [Run (BatchGetBuilds (v ''BUILD_ID'' (init first_deploy)) (v ''REGION'' (init first_deploy))),
         Echo (''Build status: '' @ build_status first_deploy 0 @ '' (waiting...)''),
         Run (Sleep 10)]) \<and>
   (\<exists>s'. wait_for_build 2 first_deploy (init first_deploy) = Some s' \<and>
      build_queries s' = build_queries (init first_deploy) + 1)"
proof -
  have i: "exited (init first_deploy) = None" by (simp add: init_def)
  have q0: "fst (build_query first_deploy 0) = 0" and q2: "fst (build_query first_deploy 2) = 0"
    by code_simp+
  have t0: "\<not> terminal_status (build_status first_deploy 0)"
    and t2: "terminal_status (build_status first_deploy 2)"
    by code_simp+
  from wait_for_build_stops_iff_terminal[OF i q0] wait_for_build_stops_iff_terminal[OF i q2]
    i q0 q2 t0 t2 show ?thesis
    by blast
qed

text \<open>
  C1 as stated fails: on \<^verbatim>\<open>FAULT\<close>, which the specification does not list, the loop
  stops after one query with \<^verbatim>\<open>exit 1\<close>; on \<^verbatim>\<open>FAULTED\<close>, which it lists, the loop
  goes on to a second query.
\<close>

theorem wait_for_build_specified_counterexample:
  "map_option exited (wait_for_build 0 fault_build (init fault_build)) = Some (Some 1) \<and>
   map_option build_queries (wait_for_build 0 fault_build (init fault_build)) = Some 1 \<and>
   build_status fault_build 0 = ''FAULT'' \<and> ''FAULT'' \<notin> set specified_terminal \<and>
   map_option build_queries (wait_for_build 0 faulted_build (init faulted_build)) = Some 2 \<and>
   build_status faulted_build 0 = ''FAULTED'' \<and> ''FAULTED'' \<in> set specified_terminal"
  by code_simp

subsection \<open>A build that fails\<close>

lemma loop_no_full:
  assumes "wait_for_build k w s = Some s'" and "exited s = None"
    and "\<not> list_ex is_full_deploy (trace s)"
  shows "\<not> list_ex is_full_deploy (trace s')"
proof -
  from wait_for_build_emits[OF assms(1,2)] obtain es where
    es: "trace s' = trace s @ es" "list_all loop_event es" by blast
  from es(2) have "list_all (\<lambda>e. \<not> is_full_deploy e) es"
    by (auto elim!: list_all_mono dest: loop_event_plain)
  with es(1) assms(3) show ?thesis
    by (auto dest!: list_all_not_ex)
qed

lemma before_B_trace_no_full: "\<not> list_ex is_full_deploy (trace (exec before_B w (init w)))"
  using exec_trace[OF before_B_no_full, of w "init w"]
  by (auto simp: init_def dest!: list_all_not_ex)

text \<open>
  C7. When the run of \<^verbatim>\<open>deploy-no-docker.sh\<close> reaches the loop and the build, after
  any number of non-terminal answers, answers \<^verbatim>\<open>FAILED\<close>, \<^verbatim>\<open>FAULT\<close>, \<^verbatim>\<open>TIMED_OUT\<close> or
  \<^verbatim>\<open>STOPPED\<close>, the script ends with status 1 and the deployment that creates the
  service is never run.
\<close>

theorem failed_build_stops_deployment:
  assumes "exited (exec before_B w (init w)) = None"
    and "\<forall>j<n. fst (build_query w j) = 0 \<and> \<not> terminal_status (build_status w j)"
    and "fst (build_query w n) = 0" and "failed_status (build_status w n)"
  shows "\<exists>s. deploy_no_docker w = Some s \<and> exited s = Some 1 \<and> status s = 1 \<and>
             \<not> list_ex is_full_deploy (trace s)"
proof -
  let ?s0 = "exec before_B w (init w)"
  from wait_fails[of ?s0 n w 0] assms obtain s1 where
    s1: "wait_for_build 0 w ?s0 = Some s1" "exited s1 = Some 1"
    by auto
  then have "deploy_no_docker w = Some s1"
    using assms(1) by (simp add: deploy_no_docker_def Let_def exec_exited)
  moreover have "\<not> list_ex is_full_deploy (trace s1)"
    using loop_no_full[OF s1(1) assms(1) before_B_trace_no_full] .
  ultimately show ?thesis
    using s1(2) by (simp add: status_def)
qed

text \<open>The world \<open>failing_build\<close>: \<^verbatim>\<open>IN_PROGRESS\<close>, then \<^verbatim>\<open>FAILED\<close>.\<close>

theorem failed_build_stops_deployment_witness:
  "exited (exec before_B failing_build (init failing_build)) = None \<and>
   fst (build_query failing_build 0) = 0 \<and> \<not> terminal_status (build_status failing_build 0) \<and>
   fst (build_query failing_build 1) = 0 \<and> failed_status (build_status failing_build 1) \<and>
   (\<exists>s. deploy_no_docker failing_build = Some s \<and> exited s = Some 1 \<and> status s = 1 \<and>
        \<not> list_ex is_full_deploy (trace s))"
proof -
  have b: "exited (exec before_B failing_build (init failing_build)) = None"
    by code_simp
  have w0: "fst (build_query failing_build 0) = 0 \<and> \<not> terminal_status (build_status failing_build 0)"
    by code_simp
  then have w: "\<forall>j<1. fst (build_query failing_build j) = 0 \<and>
      \<not> terminal_status (build_status failing_build j)"
    by simp
  have q: "fst (build_query failing_build 1) = 0" and f: "failed_status (build_status failing_build 1)"
    by code_simp+
  from failed_build_stops_deployment[OF b w q f] b w0 q f show ?thesis
    by blast
qed

subsection \<open>The registry URI\<close>

lemma repository_uri_absent:
  assumes "exited s = None" and "absent (strip_nl (snd (result w l)))"
  shows "exited (exec (repository_uri l) w s) =
           Some (if fst (result w l) = 0 then 1 else fst (result w l))"
    and "\<exists>es. trace (exec (repository_uri l) w s) = trace s @ es \<and>
           list_all (\<lambda>e. \<not> is_publish e \<and> \<not> is_full_deploy e) es"
  using assms
  by (auto simp: repository_uri_def assign_cmd_def if_then_def echo_def exit_sh_def emit_def
      Let_def v_def absent_def event_defs)

lemma before_uri_plain:
  "list_all (emits (\<lambda>e. \<not> is_publish e \<and> \<not> is_full_deploy e \<and>
      \<not> is_output_query ''RepositoryUri'' e)) (setup_A @ probe_bootstrap 124)"
  "list_all (emits (\<lambda>e. \<not> is_publish e \<and> \<not> is_full_deploy e \<and>
      \<not> is_output_query ''RepositoryUri'' e)) (setup_B @ probe_bootstrap 37)"
  by (simp_all add: block_defs emits_intros event_defs)

lemma uri_halts:
  fixes pre rest :: "step list" and l :: nat and w :: world
  assumes pre: "list_all (emits (\<lambda>e. \<not> is_publish e \<and> \<not> is_full_deploy e \<and>
      \<not> is_output_query ''RepositoryUri'' e)) pre"
    and uri: "absent (strip_nl (snd (result w l)))"
  defines "s \<equiv> exec (pre @ repository_uri l @ rest) w (init w)"
  shows "exited s \<noteq> None \<and> status s \<noteq> 0 \<and> \<not> list_ex is_publish (trace s) \<and>
         \<not> list_ex is_full_deploy (trace s) \<and>
         (list_ex (is_output_query ''RepositoryUri'') (trace s) \<and> fst (result w l) = 0
            \<longrightarrow> exited s = Some 1)"
proof -
  define s1 where "s1 = exec pre w (init w)"
  define s2 where "s2 = exec (repository_uri l) w s1"
  have s: "s = exec rest w s2"
    by (simp add: s_def s1_def s2_def exec_append)
  obtain es1 where es1: "trace s1 = es1"
    "list_all (\<lambda>e. \<not> is_publish e \<and> \<not> is_full_deploy e \<and> \<not> is_output_query ''RepositoryUri'' e) es1"
    using exec_trace[OF pre, of w "init w"] by (auto simp: s1_def init_def)
  have st1: "exited s1 \<noteq> Some 0"
    unfolding s1_def by (rule exec_status[OF pre]) (simp add: init_def)
  from es1 have no1: "\<not> list_ex is_publish (trace s1)" "\<not> list_ex is_full_deploy (trace s1)"
    "\<not> list_ex (is_output_query ''RepositoryUri'') (trace s1)"
    by (auto simp: list_ex_iff list_all_iff)
  show ?thesis
  proof (cases "exited s1 = None")
    case False
    then have "s = s1" by (simp add: s s2_def exec_exited)
    with False st1 no1 show ?thesis by (auto simp: status_def)
  next
    case True
    from repository_uri_absent[OF True uri] obtain es where
      ex: "exited s2 = Some (if fst (result w l) = 0 then 1 else fst (result w l))"
      and es: "trace s2 = trace s1 @ es" "list_all (\<lambda>e. \<not> is_publish e \<and> \<not> is_full_deploy e) es"
      unfolding s2_def by blast
    from ex have "s = s2" by (simp add: s exec_exited)
    with ex es no1 show ?thesis
      by (auto simp: status_def list_ex_iff list_all_iff)
  qed
qed

text \<open>
  C6. In both scripts, when the output \<^verbatim>\<open>RepositoryUri\<close> of the stack comes back empty
  or as \<^verbatim>\<open>None\<close>, the script ends with a status other than 0, which is 1 when the
  query itself has succeeded, and runs no command that builds or pushes the image and
  no deployment that creates the service.
\<close>

theorem missing_registry_uri_halts:
  "(absent (strip_nl (snd (result w 136))) \<longrightarrow>
      exited (deploy_sh w) \<noteq> None \<and> status (deploy_sh w) \<noteq> 0 \<and>
      \<not> list_ex is_publish (trace (deploy_sh w)) \<and>
      \<not> list_ex is_full_deploy (trace (deploy_sh w)) \<and>
      (list_ex (is_output_query ''RepositoryUri'') (trace (deploy_sh w)) \<and>
       fst (result w 136) = 0 \<longrightarrow> exited (deploy_sh w) = Some 1)) \<and>
   (absent (strip_nl (snd (result w 49))) \<longrightarrow>
      (\<exists>s. deploy_no_docker w = Some s \<and> exited s \<noteq> None \<and> status s \<noteq> 0 \<and>
        \<not> list_ex is_publish (trace s) \<and> \<not> list_ex is_full_deploy (trace s) \<and>
        (list_ex (is_output_query ''RepositoryUri'') (trace s) \<and> fst (result w 49) = 0
           \<longrightarrow> exited s = Some 1)))"
proof (rule conjI; rule impI)
  assume uri: "absent (strip_nl (snd (result w 136)))"
  have "deploy_sh w = exec ((setup_A @ probe_bootstrap 124) @ repository_uri 136 @
      (publish_A @ full_deploy 168 ''Deploying CDK stack...'' @ report 171 ''deploy.sh'')) w (init w)"
    by (simp add: deploy_sh_def deploy_sh_steps_def)
  with uri_halts[OF before_uri_plain(1) uri]
  show "exited (deploy_sh w) \<noteq> None \<and> status (deploy_sh w) \<noteq> 0 \<and>
      \<not> list_ex is_publish (trace (deploy_sh w)) \<and>
      \<not> list_ex is_full_deploy (trace (deploy_sh w)) \<and>
      (list_ex (is_output_query ''RepositoryUri'') (trace (deploy_sh w)) \<and>
       fst (result w 136) = 0 \<longrightarrow> exited (deploy_sh w) = Some 1)"
    by simp
next
  assume uri: "absent (strip_nl (snd (result w 49)))"
  let ?s = "exec before_B w (init w)"
  have "?s = exec ((setup_B @ probe_bootstrap 37) @ repository_uri 49 @
      (package_B @ project_B @ start_build_B)) w (init w)"
    by (simp add: before_B_def)
  with uri_halts[OF before_uri_plain(2) uri]
  have s: "exited ?s \<noteq> None \<and> status ?s \<noteq> 0 \<and> \<not> list_ex is_publish (trace ?s) \<and>
      \<not> list_ex is_full_deploy (trace ?s) \<and>
      (list_ex (is_output_query ''RepositoryUri'') (trace ?s) \<and> fst (result w 49) = 0
         \<longrightarrow> exited ?s = Some 1)"
    by simp
  then have "deploy_no_docker w = Some ?s"
    by (simp add: deploy_no_docker_def Let_def)
  with s show "\<exists>s. deploy_no_docker w = Some s \<and> exited s \<noteq> None \<and> status s \<noteq> 0 \<and>
        \<not> list_ex is_publish (trace s) \<and> \<not> list_ex is_full_deploy (trace s) \<and>
        (list_ex (is_output_query ''RepositoryUri'') (trace s) \<and> fst (result w 49) = 0
           \<longrightarrow> exited s = Some 1)"
    by blast
qed

text \<open>The world \<open>no_registry\<close>, where the query answers \<^verbatim>\<open>None\<close>.\<close>

theorem missing_registry_uri_halts_witness:
  "absent (strip_nl (snd (result no_registry 136))) \<and>
   list_ex (is_output_query ''RepositoryUri'') (trace (deploy_sh no_registry)) \<and>
   fst (result no_registry 136) = 0 \<and>
   exited (deploy_sh no_registry) = Some 1 \<and>
   \<not> list_ex is_publish (trace (deploy_sh no_registry)) \<and>
   \<not> list_ex is_full_deploy (trace (deploy_sh no_registry)) \<and>
   absent (strip_nl (snd (result no_registry 49))) \<and>
   (\<exists>s. deploy_no_docker no_registry = Some s \<and> status s \<noteq> 0 \<and>
        \<not> list_ex is_publish (trace s) \<and> \<not> list_ex is_full_deploy (trace s))"
proof -
  have a: "absent (strip_nl (snd (result no_registry 136)))"
    and b: "absent (strip_nl (snd (result no_registry 49)))"
    and c: "fst (result no_registry 136) = 0"
    by code_simp+
  have d: "list_ex (is_output_query ''RepositoryUri'') (trace (deploy_sh no_registry))"
    by code_simp
  from missing_registry_uri_halts[of no_registry] a b c d show ?thesis
    by blast
qed

subsection \<open>The report\<close>

lemma report_run:
  assumes "exited s = None"
  shows "exited (exec (report l n) w s) = None"
    and "absent (subst_or [] (result w l)) \<Longrightarrow>
         trace (exec (report l n) w s) =
           trace s @ Run (DescribeStackOutput (v ''STACK_NAME'' s) ''ServiceUrl'' (v ''REGION'' s))
             # map Echo (report_without_url n)"
    and "\<exists>es. trace (exec (report l n) w s) =
           trace s @ Run (DescribeStackOutput (v ''STACK_NAME'' s) ''ServiceUrl'' (v ''REGION'' s)) # es"
  using assms
  by (auto simp: report_def assign_cmd_or_def if_then_else_def echo_def emit_def v_def
      absent_def report_without_url_def)

lemma before_report_plain:
  "list_all (emits (\<lambda>e. \<not> is_output_query ''ServiceUrl'' e))
     (setup_A @ probe_bootstrap 124 @ repository_uri 136 @ publish_A @ full_deploy 168 m)"
  "list_all (emits (\<lambda>e. \<not> is_output_query ''ServiceUrl'' e)) before_B"
  "list_all (emits (\<lambda>e. \<not> is_output_query ''ServiceUrl'' e))
     ([run 225 (\<lambda>s. Cd ''..''), run 226 (\<lambda>s. RmRf (v ''TEMP_DIR'' s)), run 229 (\<lambda>s. Cd ''infra'')]
      @ full_deploy 231 m)"
  by (simp_all add: before_B_def block_defs emits_intros event_defs)

lemma report_reached:
  fixes pre :: "step list" and s0 :: sh
  assumes pre: "list_all (emits (\<lambda>e. \<not> is_output_query ''ServiceUrl'' e)) pre"
    and s0: "\<not> list_ex (is_output_query ''ServiceUrl'') (trace s0)"
    and reached: "list_ex (is_output_query ''ServiceUrl'') (trace (exec (pre @ report l n) w s0))"
  shows "exited (exec (pre @ report l n) w s0) = None \<and>
         status (exec (pre @ report l n) w s0) = 0 \<and>
         (absent (subst_or [] (result w l)) \<longrightarrow>
            (\<exists>t e. is_output_query ''ServiceUrl'' e \<and>
               trace (exec (pre @ report l n) w s0) = t @ e # map Echo (report_without_url n)))"
proof -
  define s1 where "s1 = exec pre w s0"
  have s: "exec (pre @ report l n) w s0 = exec (report l n) w s1"
    by (simp add: exec_append s1_def)
  obtain es where "trace s1 = trace s0 @ es" "list_all (\<lambda>e. \<not> is_output_query ''ServiceUrl'' e) es"
    using exec_trace[OF pre, of w s0] unfolding s1_def by blast
  with s0 have no: "\<not> list_ex (is_output_query ''ServiceUrl'') (trace s1)"
    by (auto simp: list_ex_iff list_all_iff)
  have s1: "exited s1 = None"
  proof (rule ccontr)
    assume "exited s1 \<noteq> None"
    then have "exec (report l n) w s1 = s1" by (rule exec_exited)
    with reached no show False by (simp add: s)
  qed
  have q: "is_output_query ''ServiceUrl''
      (Run (DescribeStackOutput (v ''STACK_NAME'' s1) ''ServiceUrl'' (v ''REGION'' s1)))"
    by (simp add: is_output_query_def)
  from report_run(1)[OF s1, where w = w and l = l and n = n]
    report_run(2)[OF s1, where w = w and l = l and n = n] q show ?thesis
    unfolding s by (auto simp: status_def)
qed

text \<open>
  C8. In both scripts, a run that reaches the query for the service URL ends with
  status 0 whatever the query answers, also when the query fails; when the answer is
  empty or \<^verbatim>\<open>None\<close>, the script prints after the query only the line that the
  deployment is complete, the note that the URL is not available yet and the usage
  examples.
\<close>

theorem missing_service_url_is_not_an_error:
  "(list_ex (is_output_query ''ServiceUrl'') (trace (deploy_sh w)) \<longrightarrow>
      exited (deploy_sh w) = None \<and> status (deploy_sh w) = 0 \<and>
      (absent (subst_or [] (result w 171)) \<longrightarrow>
         (\<exists>t e. is_output_query ''ServiceUrl'' e \<and>
            trace (deploy_sh w) = t @ e # map Echo (report_without_url ''deploy.sh'')))) \<and>
   (\<forall>s. deploy_no_docker w = Some s \<longrightarrow>
      list_ex (is_output_query ''ServiceUrl'') (trace s) \<longrightarrow>
      exited s = None \<and> status s = 0 \<and>
      (absent (subst_or [] (result w 234)) \<longrightarrow>
         (\<exists>t e. is_output_query ''ServiceUrl'' e \<and>
            trace s = t @ e # map Echo (report_without_url ''deploy-no-docker.sh''))))"
proof (rule conjI; intro allI impI)
  let ?pre = "setup_A @ probe_bootstrap 124 @ repository_uri 136 @ publish_A @
      full_deploy 168 ''Deploying CDK stack...''"
  assume reached: "list_ex (is_output_query ''ServiceUrl'') (trace (deploy_sh w))"
  have run: "deploy_sh w = exec (?pre @ report 171 ''deploy.sh'') w (init w)"
    by (simp add: deploy_sh_def deploy_sh_steps_def)
  have "\<not> list_ex (is_output_query ''ServiceUrl'') (trace (init w))"
    by (simp add: init_def)
  from report_reached[OF before_report_plain(1) this reached[unfolded run]]
  show "exited (deploy_sh w) = None \<and> status (deploy_sh w) = 0 \<and>
      (absent (subst_or [] (result w 171)) \<longrightarrow>
         (\<exists>t e. is_output_query ''ServiceUrl'' e \<and>
            trace (deploy_sh w) = t @ e # map Echo (report_without_url ''deploy.sh'')))"
    unfolding run .
next
  fix s
  let ?pre = "[run 225 (\<lambda>s. Cd ''..''), run 226 (\<lambda>s. RmRf (v ''TEMP_DIR'' s)),
      run 229 (\<lambda>s. Cd ''infra'')] @ full_deploy 231 ''Deploying CDK stack with App Runner service...''"
  let ?s0 = "exec before_B w (init w)"
  assume run: "deploy_no_docker w = Some s"
    and reached: "list_ex (is_output_query ''ServiceUrl'') (trace s)"
  have s0: "\<not> list_ex (is_output_query ''ServiceUrl'') (trace ?s0)"
    using exec_trace[OF before_report_plain(2), of w "init w"]
    by (auto simp: init_def list_ex_iff list_all_iff)
  have after: "after_B = ?pre @ report 234 ''deploy-no-docker.sh''"
    by (simp add: after_B_def)
  from run show "exited s = None \<and> status s = 0 \<and>
      (absent (subst_or [] (result w 234)) \<longrightarrow>
         (\<exists>t e. is_output_query ''ServiceUrl'' e \<and>
            trace s = t @ e # map Echo (report_without_url ''deploy-no-docker.sh'')))"
  proof (cases rule: deploy_no_docker_cases)
    case early
    with s0 reached show ?thesis by simp
  next
    case (loop s1)
    from wait_for_build_emits[OF loop(2,1)] obtain es where
      "trace s1 = trace ?s0 @ es" "list_all loop_event es" by blast
    with s0 have s1: "\<not> list_ex (is_output_query ''ServiceUrl'') (trace s1)"
      by (auto simp: list_ex_iff list_all_iff dest: loop_event_plain)
    from report_reached[OF before_report_plain(3) s1 reached[unfolded loop(3) after]]
    show ?thesis
      unfolding loop(3) after .
  qed
qed

text \<open>The world \<open>first_deploy\<close>, where the query answers \<^verbatim>\<open>None\<close>.\<close>

theorem missing_service_url_is_not_an_error_witness:
  "list_ex (is_output_query ''ServiceUrl'') (trace (deploy_sh first_deploy)) \<and>
   absent (subst_or [] (result first_deploy 171)) \<and>
   status (deploy_sh first_deploy) = 0 \<and>
   (\<exists>t e. is_output_query ''ServiceUrl'' e \<and>
      trace (deploy_sh first_deploy) = t @ e # map Echo (report_without_url ''deploy.sh'')) \<and>
   absent (subst_or [] (result first_deploy 234)) \<and>
   (\<exists>s. deploy_no_docker first_deploy = Some s \<and>
      list_ex (is_output_query ''ServiceUrl'') (trace s) \<and> status s = 0)"
proof -
  have a: "list_ex (is_output_query ''ServiceUrl'') (trace (deploy_sh first_deploy))"
    by code_simp
  have b: "absent (subst_or [] (result first_deploy 171))"
    and c: "absent (subst_or [] (result first_deploy 234))"
    by code_simp+
  have "map_option (\<lambda>s. list_ex (is_output_query ''ServiceUrl'') (trace s))
      (deploy_no_docker first_deploy) = Some True"
    by code_simp
  then obtain s where d: "deploy_no_docker first_deploy = Some s"
    "list_ex (is_output_query ''ServiceUrl'') (trace s)"
    by auto
  from missing_service_url_is_not_an_error[of first_deploy] a b c d show ?thesis
    by blast
qed

subsection \<open>The stacks\<close>

text \<open>
  C10. Every stack has the repository, named by the stack id in lower case and keeping
  25 images, and the output \<^verbatim>\<open>RepositoryUri\<close>, whatever \<open>createService\<close> and
  \<open>secretsArn\<close> are; with \<open>createService\<close> false, \<open>serviceUrl\<close> is empty and there
  is no output \<^verbatim>\<open>ServiceUrl\<close> or \<^verbatim>\<open>ServiceId\<close>.
\<close>

theorem repository_in_every_stack:
  "the_repository sid \<in> set (constructs (AppRunnerStack sid props)) \<and>
   the_repository_output sid \<in> set (constructs (AppRunnerStack sid props)) \<and>
   (createService props = Some False \<longrightarrow>
      serviceUrl (AppRunnerStack sid props) = [] \<and>
      \<not> list_ex (is_output ''ServiceUrl'') (constructs (AppRunnerStack sid props)) \<and>
      \<not> list_ex (is_output ''ServiceId'') (constructs (AppRunnerStack sid props)))"
  by (simp add: AppRunnerStack_def the_repository_def the_repository_output_def is_output_def
      Let_def)

text \<open>The stack \<^verbatim>\<open>FastApiRunner-dev\<close> with \<open>createService\<close> false.\<close>

theorem repository_in_every_stack_witness:
  "createService ((app_props alice ''dev'')\<lparr>createService := Some False\<rparr>) = Some False \<and>
   the_repository ''FastApiRunner-dev'' =
     Repository ''fastapirunner-dev'' ''DESTROY'' True True [(''Keep last 25 images'', 25)] \<and>
   the_repository ''FastApiRunner-dev'' \<in> set (constructs (AppRunnerStack ''FastApiRunner-dev''
     ((app_props alice ''dev'')\<lparr>createService := Some False\<rparr>))) \<and>
   serviceUrl (AppRunnerStack ''FastApiRunner-dev''
     ((app_props alice ''dev'')\<lparr>createService := Some False\<rparr>)) = [] \<and>
   \<not> list_ex (is_output ''ServiceUrl'') (constructs (AppRunnerStack ''FastApiRunner-dev''
     ((app_props alice ''dev'')\<lparr>createService := Some False\<rparr>)))"
proof -
  have a: "createService ((app_props alice ''dev'')\<lparr>createService := Some False\<rparr>) = Some False"
    by simp
  have b: "the_repository ''FastApiRunner-dev'' =
     Repository ''fastapirunner-dev'' ''DESTROY'' True True [(''Keep last 25 images'', 25)]"
    by code_simp
  from repository_in_every_stack[of "''FastApiRunner-dev''"
      "(app_props alice ''dev'')\<lparr>createService := Some False\<rparr>"] a b
  show ?thesis by blast
qed

lemma starts_with_nonempty: "starts_with (p # ps) e \<Longrightarrow> e \<noteq> []"
  by (cases e) auto

lemma bootstrap_input:
  "tryGetContext (cdk_input (bootstrap_context e) a) ''environment'' = Some e"
  "tryGetContext (cdk_input (bootstrap_context e) a) ''createService'' = Some ''false''"
  "tryGetContext (cdk_input (bootstrap_context e) a) ''pipelineOnly'' = tryGetContext a ''pipelineOnly''"
  "tryGetContext (cdk_input (bootstrap_context e) a) ''secretsArn'' = tryGetContext a ''secretsArn''"
  "process_env (cdk_input (bootstrap_context e) a) = process_env a"
  by (simp_all add: cdk_input_def bootstrap_context_def map_add_def)

lemma bootstrap_calls_preview:
  assumes "tryGetContext a ''pipelineOnly'' \<noteq> Some ''true''" and "starts_with ''preview-'' e"
  shows "app_runner_calls (cdk_input (bootstrap_context e) a) =
           [(''FastApiRunner-'' @ e,
             (app_props (cdk_input (bootstrap_context e) a) e)
               \<lparr>secretsArn := tryGetContext a ''secretsArn'', createService := Some False\<rparr>)]"
proof -
  from assms(2) have "e \<noteq> []" by (rule starts_with_nonempty)
  with assms show ?thesis
    by (simp add: app_runner_calls_def app_pipelineOnly_def app_environment_def or_else_def
        bootstrap_input Let_def)
qed

lemma bootstrap_calls_other:
  assumes "tryGetContext a ''pipelineOnly'' \<noteq> Some ''true''" and "\<not> starts_with ''preview-'' e"
    and "e \<noteq> []"
  shows "app_runner_calls (cdk_input (bootstrap_context e) a) =
           [(''FastApiRunner-dev'', app_props (cdk_input (bootstrap_context e) a) ''dev''),
            (''FastApiRunner-prod'', app_props (cdk_input (bootstrap_context e) a) ''prod'')]"
  using assms
  by (simp add: app_runner_calls_def app_pipelineOnly_def app_environment_def or_else_def
      bootstrap_input Let_def)

lemma app_Inr_stacks:
  assumes "app lib a = Inr out"
  shows "new_AppRunnerStacks lib (app_runner_calls a) = Inr (runner_stacks out)"
  using assms by (auto simp: app_def Let_def split: sum.splits if_splits)

lemma registry_only:
  assumes "createService props = Some False"
  shows "constructs (AppRunnerStack sid props) = [the_repository sid, the_repository_output sid]"
    and "serviceUrl (AppRunnerStack sid props) = []"
  using assms
  by (simp_all add: AppRunnerStack_def the_repository_def the_repository_output_def Let_def)

lemma with_service:
  assumes "createService props = Some True"
  shows "has_service (AppRunnerStack sid props)"
  using assms
  by (simp add: AppRunnerStack_def Let_def has_service_def service_constructs_def is_service_def)

text \<open>
  C2 (amended). When \<^verbatim>\<open>cdk deploy\<close> is run with \<^verbatim>\<open>createService=false\<close> for an
  environment whose name starts with \<^verbatim>\<open>preview-\<close>, the application makes one stack of
  \<^verbatim>\<open>AppRunnerStack\<close>, \<^verbatim>\<open>FastApiRunner-\<close> followed by the environment, with
  \<open>createService\<close> false, and that stack contains the repository and its output only:
  no service, no role, no service output. When the library accepts the stack and the
  name of the repository, the application declares this stack, and beside it the
  pipeline stack exactly when a connection ARN is given; when the library rejects
  one of them, the application throws. For any other environment name the stacks of
  \<^verbatim>\<open>AppRunnerStack\<close> are \<^verbatim>\<open>FastApiRunner-dev\<close> and \<^verbatim>\<open>FastApiRunner-prod\<close>, each with
  its service.
\<close>

theorem bootstrap_declares_registry_only:
  fixes lib :: cdk_lib and a :: app_input and e :: string
  defines "a' \<equiv> cdk_input (bootstrap_context e) a"
    and "sid \<equiv> ''FastApiRunner-'' @ e"
  assumes "tryGetContext a ''pipelineOnly'' \<noteq> Some ''true''"
  shows "(starts_with ''preview-'' e \<longrightarrow>
           (\<exists>props. app_runner_calls a' = [(sid, props)] \<and> createService props = Some False \<and>
              constructs (AppRunnerStack sid props) = [the_repository sid, the_repository_output sid] \<and>
              serviceUrl (AppRunnerStack sid props) = [] \<and>
              (accepts_stack lib sid props \<and> accepts_repository lib (toLowerCase sid) \<and>
               (app_codeConnectionArn a' \<noteq> [] \<longrightarrow> accepts_pipeline lib (app_pipeline_props a')) \<longrightarrow>
                 (\<exists>out. app lib a' = Inr out \<and> runner_stacks out = [AppRunnerStack sid props] \<and>
                    pipeline_stack out =
                      (if app_codeConnectionArn a' = [] then None
                       else Some (''FastApiSamplePipelineStack'', app_pipeline_props a')))) \<and>
              (\<not> (accepts_stack lib sid props \<and> accepts_repository lib (toLowerCase sid)) \<longrightarrow>
                 (\<exists>err. app lib a' = Inl err)))) \<and>
         (\<not> starts_with ''preview-'' e \<longrightarrow> e \<noteq> [] \<longrightarrow>
            map fst (app_runner_calls a') = [''FastApiRunner-dev'', ''FastApiRunner-prod''] \<and>
            (\<forall>out. app lib a' = Inr out \<longrightarrow>
               map stack_id (runner_stacks out) = [''FastApiRunner-dev'', ''FastApiRunner-prod''] \<and>
               list_all has_service (runner_stacks out)))"
proof (intro conjI impI)
  assume p: "starts_with ''preview-'' e"
  define props where "props = (app_props a' e)
      \<lparr>secretsArn := tryGetContext a ''secretsArn'', createService := Some False\<rparr>"
  have calls: "app_runner_calls a' = [(sid, props)]"
    unfolding a'_def sid_def props_def using assms(3) p by (rule bootstrap_calls_preview)
  have cs: "createService props = Some False"
    by (simp add: props_def)
  have ok: "\<exists>out. app lib a' = Inr out \<and> runner_stacks out = [AppRunnerStack sid props] \<and>
        pipeline_stack out =
          (if app_codeConnectionArn a' = [] then None
           else Some (''FastApiSamplePipelineStack'', app_pipeline_props a'))"
    if "accepts_stack lib sid props \<and> accepts_repository lib (toLowerCase sid) \<and>
        (app_codeConnectionArn a' \<noteq> [] \<longrightarrow> accepts_pipeline lib (app_pipeline_props a'))"
    using that cs by (simp add: app_def calls new_AppRunnerStack_def Let_def)
  have bad: "\<exists>err. app lib a' = Inl err"
    if "\<not> (accepts_stack lib sid props \<and> accepts_repository lib (toLowerCase sid))"
    using that by (auto simp: app_def calls new_AppRunnerStack_def Let_def)
  from calls cs registry_only[OF cs, of sid] ok bad
  show "\<exists>props. app_runner_calls a' = [(sid, props)] \<and> createService props = Some False \<and>
      constructs (AppRunnerStack sid props) = [the_repository sid, the_repository_output sid] \<and>
      serviceUrl (AppRunnerStack sid props) = [] \<and>
      (accepts_stack lib sid props \<and> accepts_repository lib (toLowerCase sid) \<and>
       (app_codeConnectionArn a' \<noteq> [] \<longrightarrow> accepts_pipeline lib (app_pipeline_props a')) \<longrightarrow>
         (\<exists>out. app lib a' = Inr out \<and> runner_stacks out = [AppRunnerStack sid props] \<and>
            pipeline_stack out =
              (if app_codeConnectionArn a' = [] then None
               else Some (''FastApiSamplePipelineStack'', app_pipeline_props a')))) \<and>
      (\<not> (accepts_stack lib sid props \<and> accepts_repository lib (toLowerCase sid)) \<longrightarrow>
         (\<exists>err. app lib a' = Inl err))"
    by blast
next
  assume n: "\<not> starts_with ''preview-'' e" "e \<noteq> []"
  have calls: "app_runner_calls a' =
      [(''FastApiRunner-dev'', app_props a' ''dev''), (''FastApiRunner-prod'', app_props a' ''prod'')]"
    unfolding a'_def using assms(3) n by (rule bootstrap_calls_other)
  then show "map fst (app_runner_calls a') = [''FastApiRunner-dev'', ''FastApiRunner-prod'']"
    by simp
  show "\<forall>out. app lib a' = Inr out \<longrightarrow>
      map stack_id (runner_stacks out) = [''FastApiRunner-dev'', ''FastApiRunner-prod''] \<and>
      list_all has_service (runner_stacks out)"
  proof (intro allI impI)
    fix out
    assume "app lib a' = Inr out"
    from app_Inr_stacks[OF this]
    have "runner_stacks out =
        [AppRunnerStack ''FastApiRunner-dev'' (app_props a' ''dev''),
         AppRunnerStack ''FastApiRunner-prod'' (app_props a' ''prod'')]"
      by (auto simp: calls new_AppRunnerStack_def split: if_splits)
    moreover have "createService (app_props a' env) = Some True" for env
      by (simp add: app_props_def)
    ultimately show "map stack_id (runner_stacks out) = [''FastApiRunner-dev'', ''FastApiRunner-prod''] \<and>
        list_all has_service (runner_stacks out)"
      by (simp add: with_service) (simp add: AppRunnerStack_def Let_def)
  qed
qed

lemma cdk2_names:
  "stack_name_ok ''FastApiRunner-preview-alice''"
  "repository_name_ok (toLowerCase ''FastApiRunner-preview-alice'')"
  "stack_name_ok ''FastApiRunner-dev''"
  "repository_name_ok (toLowerCase ''FastApiRunner-dev'')"
  "stack_name_ok ''FastApiRunner-prod''"
  "repository_name_ok (toLowerCase ''FastApiRunner-prod'')"
  "\<not> stack_name_ok ''FastApiRunner-preview-john.doe''"
  by code_simp+

text \<open>
  The first deployment of \<^verbatim>\<open>preview-alice\<close>, without and with a connection for the
  pipeline, and of \<^verbatim>\<open>preview-john.doe\<close>, a name the library rejects.
\<close>

theorem bootstrap_declares_registry_only_witness:
  "tryGetContext alice ''pipelineOnly'' \<noteq> Some ''true'' \<and> starts_with ''preview-'' ''preview-alice'' \<and>
   (\<exists>out st. app cdk2 (cdk_input (bootstrap_context ''preview-alice'') alice) = Inr out \<and>
      runner_stacks out = [st] \<and> pipeline_stack out = None \<and>
      constructs st = [the_repository ''FastApiRunner-preview-alice'',
                       the_repository_output ''FastApiRunner-preview-alice'']) \<and>
   tryGetContext alice_connected ''pipelineOnly'' \<noteq> Some ''true'' \<and>
   (\<exists>out st p. app cdk2 (cdk_input (bootstrap_context ''preview-alice'') alice_connected) = Inr out \<and>
      runner_stacks out = [st] \<and> pipeline_stack out = Some (''FastApiSamplePipelineStack'', p) \<and>
      constructs st = [the_repository ''FastApiRunner-preview-alice'',
                       the_repository_output ''FastApiRunner-preview-alice'']) \<and>
   starts_with ''preview-'' ''preview-john.doe'' \<and>
   (\<exists>err. app cdk2 (cdk_input (bootstrap_context ''preview-john.doe'') alice) = Inl err)"
proof -
  have a: "tryGetContext alice ''pipelineOnly'' \<noteq> Some ''true''"
    and c: "tryGetContext alice_connected ''pipelineOnly'' \<noteq> Some ''true''"
    by (simp_all add: alice_def alice_connected_def)
  have b: "starts_with ''preview-'' ''preview-alice''" "starts_with ''preview-'' ''preview-john.doe''"
    by simp_all
  have n: "app_codeConnectionArn (cdk_input (bootstrap_context e) alice) = []"
    "app_codeConnectionArn (cdk_input (bootstrap_context e) alice_connected) \<noteq> []" for e
    by (simp_all add: app_codeConnectionArn_def cdk_input_def bootstrap_context_def map_add_def
        alice_def alice_connected_def or_else_def)
  have l: "accepts_stack cdk2 sid props = stack_name_ok sid"
    "accepts_repository cdk2 = repository_name_ok" "accepts_pipeline cdk2 p" for sid props p
    by (simp_all add: cdk2_def)
  from bootstrap_declares_registry_only[OF a, of "''preview-alice''" cdk2]
    bootstrap_declares_registry_only[OF c, of "''preview-alice''" cdk2]
    bootstrap_declares_registry_only[OF a, of "''preview-john.doe''" cdk2]
    a b c show ?thesis
    by (simp add: n l cdk2_names) blast
qed

text \<open>
  C2 as stated fails for the environment \<open>dev\<close>: run with \<^verbatim>\<open>createService=false\<close>, the
  application declares \<^verbatim>\<open>FastApiRunner-dev\<close> and \<^verbatim>\<open>FastApiRunner-prod\<close>, each with
  roles, the service and the service outputs.
\<close>

theorem bootstrap_of_dev_counterexample:
  "map stack_id (declared (app cdk2 (cdk_input (bootstrap_context ''dev'') alice))) =
     [''FastApiRunner-dev'', ''FastApiRunner-prod''] \<and>
   map has_service (declared (app cdk2 (cdk_input (bootstrap_context ''dev'') alice))) = [True, True] \<and>
   map has_role (declared (app cdk2 (cdk_input (bootstrap_context ''dev'') alice))) = [True, True] \<and>
   map serviceUrl (declared (app cdk2 (cdk_input (bootstrap_context ''dev'') alice))) =
     [''https://${Service.ServiceUrl}'', ''https://${Service.ServiceUrl}'']"
  by (simp add: app_def app_runner_calls_def app_pipelineOnly_def app_environment_def or_else_def
      app_codeConnectionArn_def bootstrap_input Let_def alice_def declared_def
      new_AppRunnerStack_def cdk2_def cdk2_names truthy_def
      AppRunnerStack_def app_props_def has_service_def has_role_def service_constructs_def
      is_service_def is_role_def attr_def)

lemma toString_8080: "toString 8080 = ''8080''"
  by (simp add: toString.simps digit_char_def)

lemma services_AppRunnerStack:
  "createService props \<noteq> Some False \<Longrightarrow>
   map imageConfiguration (services (AppRunnerStack sid props)) = [imageConfiguration_of props]"
  by (cases "createService props")
    (auto simp: services_def AppRunnerStack_def service_constructs_def Let_def)

text \<open>
  C5 (amended). When the secret ARN is absent (or empty) and the service is created, its
  image configuration has no \<open>runtimeEnvironmentSecrets\<close>, and its runtime variables
  are \<^verbatim>\<open>ENVIRONMENT\<close> and \<^verbatim>\<open>PORT\<close> followed by the entries of
  \<open>environmentVariables\<close>: exactly \<^verbatim>\<open>ENVIRONMENT\<close> and \<^verbatim>\<open>PORT\<close> when none are given.
\<close>

theorem runtime_variables_without_secret:
  assumes "\<not> truthy (secretsArn props)" and "createService props \<noteq> Some False"
  shows "map imageConfiguration (services (AppRunnerStack sid props)) =
           [\<lparr>ic_port = toString (case port props of None \<Rightarrow> 8080 | Some p \<Rightarrow> p),
             runtimeEnvironmentVariables =
               [(''ENVIRONMENT'', environment props),
                (''PORT'', toString (case port props of None \<Rightarrow> 8080 | Some p \<Rightarrow> p))] @
               (case environmentVariables props of None \<Rightarrow> [] | Some e \<Rightarrow> e),
             runtimeEnvironmentSecrets = None\<rparr>] \<and>
         (environmentVariables props = None \<or> environmentVariables props = Some [] \<longrightarrow>
            variable_names (AppRunnerStack sid props) = [''ENVIRONMENT'', ''PORT''])"
proof -
  have ic: "map imageConfiguration (services (AppRunnerStack sid props)) = [imageConfiguration_of props]"
    using assms(2) by (rule services_AppRunnerStack)
  then obtain s where s: "services (AppRunnerStack sid props) = [s]"
    "imageConfiguration s = imageConfiguration_of props"
    by auto
  from assms(1) have "imageConfiguration_of props =
      \<lparr>ic_port = toString (case port props of None \<Rightarrow> 8080 | Some p \<Rightarrow> p),
       runtimeEnvironmentVariables =
         [(''ENVIRONMENT'', environment props),
          (''PORT'', toString (case port props of None \<Rightarrow> 8080 | Some p \<Rightarrow> p))] @
         (case environmentVariables props of None \<Rightarrow> [] | Some e \<Rightarrow> e),
       runtimeEnvironmentSecrets = None\<rparr>"
    by (simp add: imageConfiguration_of_def Let_def)
  with ic s show ?thesis
    by (auto simp: variable_names_def)
qed

text \<open>The stack of \<open>dev\<close> as \<^verbatim>\<open>app.ts\<close> declares it.\<close>

theorem runtime_variables_without_secret_witness:
  "\<not> truthy (secretsArn (app_props alice ''dev'')) \<and>
   createService (app_props alice ''dev'') \<noteq> Some False \<and>
   map imageConfiguration (services (AppRunnerStack ''FastApiRunner-dev'' (app_props alice ''dev''))) =
     [\<lparr>ic_port = ''8080'',
       runtimeEnvironmentVariables =
         [(''ENVIRONMENT'', ''dev''), (''PORT'', ''8080''), (''NODE_ENV'', ''production''),
          (''LOG_LEVEL'', ''info'')],
       runtimeEnvironmentSecrets = None\<rparr>]"
proof -
  have a: "\<not> truthy (secretsArn (app_props alice ''dev''))"
    and b: "createService (app_props alice ''dev'') \<noteq> Some False"
    by (simp_all add: app_props_def truthy_def)
  from runtime_variables_without_secret[OF a b, of "''FastApiRunner-dev''"] a b show ?thesis
    by (simp add: app_props_def toString_8080)
qed

text \<open>
  C5 as stated fails for the stack \<^verbatim>\<open>app.ts\<close> declares for \<^verbatim>\<open>alice\<close> without a secret
  ARN: the service has the variables \<^verbatim>\<open>NODE_ENV\<close> and \<^verbatim>\<open>LOG_LEVEL\<close> as well.
\<close>

theorem runtime_variables_counterexample:
  "tryGetContext alice ''secretsArn'' = None \<and>
   map stack_id (declared (app cdk2 alice)) = [''FastApiRunner-preview-alice''] \<and>
   map variable_names (declared (app cdk2 alice)) =
     [[''ENVIRONMENT'', ''PORT'', ''NODE_ENV'', ''LOG_LEVEL'']]"
  by (simp add: app_def app_runner_calls_def app_pipelineOnly_def app_environment_def or_else_def
      app_codeConnectionArn_def getDefaultEnvironment_def truthy_def Let_def alice_def declared_def
      new_AppRunnerStack_def cdk2_def cdk2_names
      AppRunnerStack_def app_props_def service_constructs_def variable_names_def
      services_def imageConfiguration_of_def)

subsection \<open>The environment name\<close>

lemma resolve_argument:
  assumes "arg1 w = Some e" and "e \<noteq> []"
  shows "v ''ENVIRONMENT'' (exec (resolve l) w (init w)) = e"
    and "exited (exec (resolve l) w (init w)) = None"
  using assms
  by (simp_all add: resolve_def if_then_else_def assign_def assign_cmd_def emit_def v_def
      init_def Let_def)

lemma resolve_default:
  assumes "arg1 w = None \<or> arg1 w = Some []"
  shows "fst (result w l) = 0 \<Longrightarrow>
           v ''ENVIRONMENT'' (exec (resolve l) w (init w)) = ''preview-'' @ strip_nl (snd (result w l))"
    and "fst (result w l) = 0 \<Longrightarrow> exited (exec (resolve l) w (init w)) = None"
    and "fst (result w l) \<noteq> 0 \<Longrightarrow> exited (exec (resolve l) w (init w)) = Some (fst (result w l))"
    and "fst (result w l) \<noteq> 0 \<Longrightarrow> trace (exec (resolve l) w (init w)) = [Run Whoami]"
  using assms
  by (auto simp: resolve_def if_then_else_def assign_def assign_cmd_def emit_def v_def
      init_def Let_def)

lemma scripts_start_with_resolve:
  "deploy_sh_steps = resolve 90 @ drop 3 deploy_sh_steps"
  "before_B = resolve 5 @ drop 3 before_B"
  by (simp_all add: deploy_sh_steps_def before_B_def setup_A_def setup_B_def resolve_def)

lemma scripts_abort:
  assumes "arg1 w = None \<or> arg1 w = Some []"
  shows "fst (result w 90) \<noteq> 0 \<Longrightarrow> deploy_sh w = exec (resolve 90) w (init w)"
    and "fst (result w 5) \<noteq> 0 \<Longrightarrow> deploy_no_docker w = Some (exec (resolve 5) w (init w))"
proof -
  assume f: "fst (result w 90) \<noteq> 0"
  have "deploy_sh w = exec (drop 3 deploy_sh_steps) w (exec (resolve 90) w (init w))"
    unfolding deploy_sh_def by (subst scripts_start_with_resolve(1)) (simp only: exec_append)
  with resolve_default(3)[OF assms f] show "deploy_sh w = exec (resolve 90) w (init w)"
    by (simp add: exec_exited)
next
  assume f: "fst (result w 5) \<noteq> 0"
  have "exec before_B w (init w) = exec (drop 3 before_B) w (exec (resolve 5) w (init w))"
    by (subst scripts_start_with_resolve(2)) (simp only: exec_append)
  with resolve_default(3)[OF assms f] have "exec before_B w (init w) = exec (resolve 5) w (init w)"
    by (simp add: exec_exited)
  with resolve_default(3)[OF assms f]
  show "deploy_no_docker w = Some (exec (resolve 5) w (init w))"
    by (simp add: deploy_no_docker_def Let_def)
qed

text \<open>
  C4 (amended). In \<^verbatim>\<open>app.ts\<close>, without a value of the context key \<open>environment\<close> (or
  with the empty one) the environment is \<^verbatim>\<open>preview-\<close> followed by \<^verbatim>\<open>USER\<close> when that
  is set and not empty, else by the trimmed output of \<^verbatim>\<open>whoami\<close>, and
  \<^verbatim>\<open>preview-local\<close> when \<^verbatim>\<open>whoami\<close> fails; a value that is not empty takes
  precedence. In the scripts (\<open>l\<close> is 90 in \<^verbatim>\<open>deploy.sh\<close>, 5 in
  \<^verbatim>\<open>deploy-no-docker.sh\<close>), an argument that is not empty takes precedence; without
  one, or with the empty one, the environment is \<^verbatim>\<open>preview-\<close> followed by the output
  of \<^verbatim>\<open>whoami\<close>, and when \<^verbatim>\<open>whoami\<close> fails the script ends there with its status.
\<close>

theorem environment_resolution:
  "(\<not> truthy (tryGetContext a ''environment'') \<longrightarrow>
      (\<forall>u. process_env a ''USER'' = Some u \<and> u \<noteq> [] \<longrightarrow> app_environment a = ''preview-'' @ u) \<and>
      (\<not> truthy (process_env a ''USER'') \<longrightarrow>
         (\<forall>out. execSync_whoami a = Some out \<longrightarrow> app_environment a = ''preview-'' @ trim out) \<and>
         (execSync_whoami a = None \<longrightarrow> app_environment a = ''preview-local''))) \<and>
   (\<forall>e. tryGetContext a ''environment'' = Some e \<and> e \<noteq> [] \<longrightarrow> app_environment a = e) \<and>
   (\<forall>e. arg1 w = Some e \<and> e \<noteq> [] \<longrightarrow>
      v ''ENVIRONMENT'' (exec (resolve l) w (init w)) = e \<and>
      exited (exec (resolve l) w (init w)) = None) \<and>
   (arg1 w = None \<or> arg1 w = Some [] \<longrightarrow>
      (fst (result w l) = 0 \<longrightarrow>
         v ''ENVIRONMENT'' (exec (resolve l) w (init w)) = ''preview-'' @ strip_nl (snd (result w l)) \<and>
         exited (exec (resolve l) w (init w)) = None) \<and>
      (fst (result w l) \<noteq> 0 \<longrightarrow>
         exited (exec (resolve l) w (init w)) = Some (fst (result w l)) \<and>
         trace (exec (resolve l) w (init w)) = [Run Whoami]) \<and>
      (fst (result w 90) \<noteq> 0 \<longrightarrow> deploy_sh w = exec (resolve 90) w (init w)) \<and>
      (fst (result w 5) \<noteq> 0 \<longrightarrow> deploy_no_docker w = Some (exec (resolve 5) w (init w))))"
proof (intro conjI allI impI; (elim conjE)?)
  fix u
  assume "\<not> truthy (tryGetContext a ''environment'')" "process_env a ''USER'' = Some u" "u \<noteq> []"
  then show "app_environment a = ''preview-'' @ u"
    by (simp add: app_environment_def getDefaultEnvironment_def truthy_def or_else_def
        split: option.splits)
next
  fix out
  assume "\<not> truthy (tryGetContext a ''environment'')" "\<not> truthy (process_env a ''USER'')"
    "execSync_whoami a = Some out"
  then show "app_environment a = ''preview-'' @ trim out"
    by (simp add: app_environment_def getDefaultEnvironment_def truthy_def or_else_def
        split: option.splits)
next
  assume "\<not> truthy (tryGetContext a ''environment'')" "\<not> truthy (process_env a ''USER'')"
    "execSync_whoami a = None"
  then show "app_environment a = ''preview-local''"
    by (simp add: app_environment_def getDefaultEnvironment_def truthy_def or_else_def
        split: option.splits)
next
  fix e
  assume "tryGetContext a ''environment'' = Some e" "e \<noteq> []"
  then show "app_environment a = e"
    by (simp add: app_environment_def or_else_def)
next
  fix e
  assume e: "arg1 w = Some e" "e \<noteq> []"
  show "v ''ENVIRONMENT'' (exec (resolve l) w (init w)) = e"
    using e by (rule resolve_argument(1))
  show "exited (exec (resolve l) w (init w)) = None"
    using e by (rule resolve_argument(2))
next
  assume d: "arg1 w = None \<or> arg1 w = Some []"
  {
    assume ok: "fst (result w l) = 0"
    show "v ''ENVIRONMENT'' (exec (resolve l) w (init w)) = ''preview-'' @ strip_nl (snd (result w l))"
      using d ok by (rule resolve_default(1))
    show "exited (exec (resolve l) w (init w)) = None"
      using d ok by (rule resolve_default(2))
  }
  {
    assume f: "fst (result w l) \<noteq> 0"
    show "exited (exec (resolve l) w (init w)) = Some (fst (result w l))"
      using d f by (rule resolve_default(3))
    show "trace (exec (resolve l) w (init w)) = [Run Whoami]"
      using d f by (rule resolve_default(4))
  }
  {
    assume f: "fst (result w 90) \<noteq> 0"
    show "deploy_sh w = exec (resolve 90) w (init w)"
      using d f by (rule scripts_abort(1))
  }
  {
    assume f: "fst (result w 5) \<noteq> 0"
    show "deploy_no_docker w = Some (exec (resolve 5) w (init w))"
      using d f by (rule scripts_abort(2))
  }
qed

text \<open>\<^verbatim>\<open>cdk\<close> run by \<open>alice\<close> and by \<open>nobody\<close>; the scripts run with the argument \<open>dev\<close>.\<close>

theorem environment_resolution_witness:
  "\<not> truthy (tryGetContext alice ''environment'') \<and> process_env alice ''USER'' = Some ''alice'' \<and>
   app_environment alice = ''preview-alice'' \<and>
   \<not> truthy (tryGetContext nobody ''environment'') \<and> \<not> truthy (process_env nobody ''USER'') \<and>
   execSync_whoami nobody = None \<and> app_environment nobody = ''preview-local'' \<and>
   arg1 first_deploy = Some ''dev'' \<and>
   v ''ENVIRONMENT'' (exec (resolve 90) first_deploy (init first_deploy)) = ''dev''"
proof -
  have a: "\<not> truthy (tryGetContext alice ''environment'')" "process_env alice ''USER'' = Some ''alice''"
    and n: "\<not> truthy (tryGetContext nobody ''environment'')" "\<not> truthy (process_env nobody ''USER'')"
      "execSync_whoami nobody = None"
    and f: "arg1 first_deploy = Some ''dev''"
    by (simp_all add: alice_def nobody_def truthy_def first_deploy_def example_world_def)
  from environment_resolution[of alice first_deploy 90] environment_resolution[of nobody first_deploy 90]
    a n f
  show ?thesis by auto
qed

text \<open>
  C4 as stated fails in the scripts: without an argument and with a failing
  \<^verbatim>\<open>whoami\<close>, they end with the status of \<^verbatim>\<open>whoami\<close> after that one command and
  \<^verbatim>\<open>ENVIRONMENT\<close> is never \<^verbatim>\<open>preview-local\<close>; and an explicit empty argument does not
  take precedence over the default.
\<close>

theorem environment_resolution_counterexample:
  "arg1 no_identity = None \<and> fst (result no_identity 90) = 1 \<and>
   exited (deploy_sh no_identity) = Some 1 \<and>
   trace (deploy_sh no_identity) = [Run Whoami] \<and>
   v ''ENVIRONMENT'' (deploy_sh no_identity) \<noteq> ''preview-local'' \<and>
   map_option exited (deploy_no_docker no_identity) = Some (Some 1) \<and>
   map_option (v ''ENVIRONMENT'') (deploy_no_docker no_identity) \<noteq> Some ''preview-local'' \<and>
   arg1 empty_argument = Some [] \<and>
   v ''ENVIRONMENT'' (exec (resolve 90) empty_argument (init empty_argument)) = ''preview-alice''"
  by code_simp

end
